theory Spec2Isabelle
  imports Complex_Main
begin

section \<open>JavaScript values used by the library\<close>

text \<open>
  The library is TypeScript. A \<^verbatim>\<open>number\<close> is an IEEE 754 double. A number that holds a
  count, a page, a limit or a version is modelled by the integer it holds, an \<^typ>\<open>int\<close>,
  and every arithmetic step the code takes on such numbers gives the double nearest to
  the exact result: \<^verbatim>\<open>+ 1\<close>, \<^verbatim>\<open>- 1\<close> and \<^verbatim>\<open>*\<close> are exact only while the result stays
  within \<^verbatim>\<open>2^53\<close> in magnitude, and the quotient inside \<^verbatim>\<open>Math.ceil(total / limit)\<close> is
  rounded before its ceiling is taken. Comparisons are exact. Non-finite results (a
  division by zero, an overflow) are kept as values of their own.
  An optional property (\<^verbatim>\<open>page?: number\<close>) is an \<^typ>\<open>'a option\<close>, \<^term>\<open>None\<close> being
  \<^verbatim>\<open>undefined\<close>. A thrown \<^verbatim>\<open>Error\<close> is the left summand of a sum type.
\<close>

datatype jsnum = Fin int | PosInf | NegInf | NaN

text \<open>
  Rounding to a double. A finite double other than zero is \<open>m * 2^(e - 52)\<close> with an
  integer significand \<open>m\<close>, \<open>2^52 \<le> \<bar>m\<bar> < 2^53\<close>. The binade of a real \<open>x\<close> is the
  exponent \<open>e\<close> with \<open>2^e \<le> \<bar>x\<bar> < 2^(e + 1)\<close>, and \<open>x\<close> rounds to the nearest multiple
  of \<open>2^(e - 52)\<close>, a tie going to the even significand (\<^verbatim>\<open>roundTiesToEven\<close> of IEEE 754,
  the rounding ECMAScript prescribes for every arithmetic operator). The exponent is not
  bounded in \<open>round53\<close>; the overflow to \<^verbatim>\<open>Infinity\<close> is added below, where a result can
  reach it.
\<close>

definition round_half_even :: "real \<Rightarrow> int" where
  "round_half_even y =
     (if y - of_int \<lfloor>y\<rfloor> < 1 / 2 then \<lfloor>y\<rfloor>
      else if y - of_int \<lfloor>y\<rfloor> > 1 / 2 then \<lfloor>y\<rfloor> + 1
      else if even \<lfloor>y\<rfloor> then \<lfloor>y\<rfloor> else \<lfloor>y\<rfloor> + 1)"

definition binade :: "real \<Rightarrow> int" where
  "binade x = \<lfloor>log 2 \<bar>x\<bar>\<rfloor>"

definition round53 :: "real \<Rightarrow> real" where
  "round53 x =
     (if x = 0 then 0
      else of_int (round_half_even (x / 2 powi (binade x - 52))) * 2 powi (binade x - 52))"

text \<open>
  The double nearest to an integer \<open>n\<close>, which is an integer itself; and the number
  JavaScript makes of an arithmetic result \<open>n\<close>: a result that rounds to \<open>2^1024\<close> or beyond
  in magnitude overflows to \<^verbatim>\<open>Infinity\<close> or \<^verbatim>\<open>-Infinity\<close>.
\<close>

definition nearest_int :: "int \<Rightarrow> int" where
  "nearest_int n = \<lfloor>round53 (of_int n)\<rfloor>"

definition js_number :: "int \<Rightarrow> jsnum" where
  "js_number n =
     (if 2 ^ 1024 \<le> nearest_int n then PosInf
      else if nearest_int n \<le> - (2 ^ 1024) then NegInf
      else Fin (nearest_int n))"

text \<open>\<^verbatim>\<open>a < b\<close> for an integer \<^verbatim>\<open>a\<close> and a possibly non-finite \<^verbatim>\<open>b\<close>.\<close>

fun int_less_jsnum :: "int \<Rightarrow> jsnum \<Rightarrow> bool" where
  "int_less_jsnum a (Fin b) = (a < b)"
| "int_less_jsnum a PosInf = True"
| "int_less_jsnum a NegInf = False"
| "int_less_jsnum a NaN = False"

text \<open>\<^verbatim>\<open>a === b\<close> for an integer \<^verbatim>\<open>a\<close> and a possibly non-finite \<^verbatim>\<open>b\<close>.\<close>

fun int_eq_jsnum :: "int \<Rightarrow> jsnum \<Rightarrow> bool" where
  "int_eq_jsnum a (Fin b) = (a = b)"
| "int_eq_jsnum a PosInf = False"
| "int_eq_jsnum a NegInf = False"
| "int_eq_jsnum a NaN = False"

text \<open>Truthiness of a number (\<^verbatim>\<open>0\<close> is falsy) and of a string (\<^verbatim>\<open>''\<close> is falsy).\<close>

definition truthy_num :: "int \<Rightarrow> bool" where
  "truthy_num n = (n \<noteq> 0)"

definition truthy_str :: "string \<Rightarrow> bool" where
  "truthy_str s = (s \<noteq> [])"

text \<open>\<^verbatim>\<open>x || d\<close> for an optional number and for an optional string.\<close>

definition num_or :: "int option \<Rightarrow> int \<Rightarrow> int" where
  "num_or x d = (case x of None \<Rightarrow> d | Some n \<Rightarrow> if truthy_num n then n else d)"

definition str_or :: "string option \<Rightarrow> string \<Rightarrow> string" where
  "str_or x d = (case x of None \<Rightarrow> d | Some s \<Rightarrow> if truthy_str s then s else d)"

datatype js_error = Error string

text \<open>
  \<^verbatim>\<open>Math.ceil(a / b)\<close> on integers: the quotient is rounded to a double, and
  \<^verbatim>\<open>Math.ceil\<close> of a double is exact. With \<^verbatim>\<open>b = 0\<close> JavaScript's division gives
  \<^verbatim>\<open>Infinity\<close>, \<^verbatim>\<open>-Infinity\<close> or \<^verbatim>\<open>NaN\<close>, which \<^verbatim>\<open>Math.ceil\<close> returns unchanged. A
  quotient of two integers with \<open>b \<noteq> 0\<close> is at most \<open>\<bar>a\<bar>\<close> in magnitude, so it does not
  overflow; where it underflows it is rounded to a number of the same sign and below 1 in
  magnitude, as it is here, and its ceiling is the same.
\<close>

definition ceil_div :: "int \<Rightarrow> int \<Rightarrow> jsnum" where
  "ceil_div a b =
     (if b = 0 then (if 0 < a then PosInf else if a < 0 then NegInf else NaN)
      else Fin \<lceil>round53 (real_of_int a / real_of_int b)\<rceil>)"

text \<open>Truthiness of an optional boolean flag (\<^verbatim>\<open>undefined\<close> and \<^verbatim>\<open>false\<close> are falsy).\<close>

definition truthy_flag :: "bool option \<Rightarrow> bool" where
  "truthy_flag x = (x = Some True)"

text \<open>\<^verbatim>\<open>if (userId)\<close> on an optional string: present and not empty.\<close>

definition truthy_opt_str :: "string option \<Rightarrow> bool" where
  "truthy_opt_str u = (case u of None \<Rightarrow> False | Some s \<Rightarrow> truthy_str s)"

datatype jsval = VUndefined | VNull | VBool bool | VNum int | VStr string

section \<open>Pagination (utils/helpers.ts, query/pagination.ts)\<close>

text \<open>
  \<^verbatim>\<open>calculateOffset = (page, limit) => (page - 1) * limit\<close>: a subtraction and a
  multiplication, each rounded; only the product can overflow.
\<close>

definition calculateOffset :: "int \<Rightarrow> int \<Rightarrow> jsnum" where
  "calculateOffset page limit = js_number (nearest_int (page - 1) * limit)"

text \<open>\<^verbatim>\<open>calculateTotalPages = (total, limit) => Math.ceil(total / limit)\<close>\<close>

definition calculateTotalPages :: "int \<Rightarrow> int \<Rightarrow> jsnum" where
  "calculateTotalPages totalCount limit = ceil_div totalCount limit"

record PaginationOptions =
  po_page :: "int option"
  po_limit :: "int option"
  po_offset :: "int option"
  po_cursor :: "string option"

record PaginationMeta =
  pm_page :: int
  pm_limit :: int
  pm_total :: int
  pm_totalPages :: jsnum
  pm_offset :: jsnum
  pm_hasNext :: bool
  pm_hasPrev :: bool
  pm_isFirstPage :: bool
  pm_isLastPage :: bool

text \<open>\<^verbatim>\<open>PaginationHelper.getPaginationMeta(page, limit, total)\<close>\<close>

definition getPaginationMeta :: "int \<Rightarrow> int \<Rightarrow> int \<Rightarrow> PaginationMeta" where
  "getPaginationMeta page limit totalCount =
     (let totalPages = calculateTotalPages totalCount limit;
          offset = calculateOffset page limit
      in \<lparr> pm_page = page,
           pm_limit = limit,
           pm_total = totalCount,
           pm_totalPages = totalPages,
           pm_offset = offset,
           pm_hasNext = int_less_jsnum page totalPages,
           pm_hasPrev = (page > 1),
           pm_isFirstPage = (page = 1),
           pm_isLastPage = int_eq_jsnum page totalPages \<rparr>)"

text \<open>
  \<^verbatim>\<open>PaginationHelper.validatePagination(options)\<close>: each guard is
  \<^verbatim>\<open>options.x && options.x < 1\<close>, so it fires only for a number that is present and
  truthy. The function returns nothing; a throw is \<^term>\<open>Inl\<close>.
\<close>

definition validatePagination :: "PaginationOptions \<Rightarrow> js_error + unit" where
  "validatePagination options =
     (if (case po_page options of None \<Rightarrow> False | Some p \<Rightarrow> truthy_num p \<and> p < 1)
        then Inl (Error ''Page must be greater than 0'')
      else if (case po_limit options of None \<Rightarrow> False | Some l \<Rightarrow> truthy_num l \<and> l < 1)
        then Inl (Error ''Limit must be greater than 0'')
      else if (case po_limit options of None \<Rightarrow> False | Some l \<Rightarrow> truthy_num l \<and> l > 100)
        then Inl (Error ''Limit cannot exceed 100'')
      else Inr ())"

record 'a CursorPage =
  cp_data :: "'a list"
  cp_nextCursor :: "string option"
  cp_hasPrev :: bool

text \<open>
  \<^verbatim>\<open>createCursorPagination(data, getCursor, limit)\<close>. \<^verbatim>\<open>data.slice(0, -1)\<close> drops the last
  element (and is \<^verbatim>\<open>[]\<close> on \<^verbatim>\<open>[]\<close>), which is \<^term>\<open>butlast\<close>; the last item is read
  only under the guard \<^verbatim>\<open>items.length > 0\<close>.
\<close>

definition createCursorPagination :: "'a list \<Rightarrow> ('a \<Rightarrow> string) \<Rightarrow> int \<Rightarrow> 'a CursorPage" where
  "createCursorPagination data getCursor limit =
     (let hasMore = (int (length data) > limit);
          items = (if hasMore then butlast data else data);
          nextCursor = (if hasMore \<and> length items > 0 then Some (getCursor (last items)) else None)
      in \<lparr> cp_data = items, cp_nextCursor = nextCursor, cp_hasPrev = False \<rparr>)"

text \<open>A cursor-extraction function for the worked examples: item \<open>n\<close> has a cursor of \<open>n\<close> characters.\<close>

definition cursorOf :: "nat \<Rightarrow> string" where
  "cursorOf n = replicate n CHR ''c''"

section \<open>Entity (base/entity.ts)\<close>

text \<open>
  An entity object holds its scalar fields itself and a \<^emph>\<open>reference\<close> to its metadata
  object (\<^verbatim>\<open>Record<string, unknown>\<close>). Two entities can hold the same reference, so the
  metadata objects live in an explicit store and an entity stores an address. A \<^verbatim>\<open>Date\<close>
  is its millisecond timestamp; the entity methods never mutate a \<^verbatim>\<open>Date\<close> in place, they
  assign a new one, so dates need no store. Every \<^verbatim>\<open>new Date()\<close> and every \<^verbatim>\<open>nanoid()\<close> of
  the source is a parameter of the function that makes the call.
\<close>

type_synonym addr = nat

type_synonym metadata_obj = "string \<rightharpoonup> jsval"

record store =
  st_obj :: "addr \<Rightarrow> metadata_obj"
  st_next :: addr

definition empty_store :: store where
  "empty_store = \<lparr> st_obj = (\<lambda>_. Map.empty), st_next = 0 \<rparr>"

text \<open>
  The object literal \<^verbatim>\<open>{}\<close>: a new, empty object at the next address. The addresses in use
  are those below \<^term>\<open>st_next\<close>; a reference handed to the constructor in its data is one
  of them.
\<close>

definition alloc_empty :: "store \<Rightarrow> addr \<times> store" where
  "alloc_empty s = (st_next s, s\<lparr> st_obj := (st_obj s)(st_next s := Map.empty), st_next := st_next s + 1 \<rparr>)"

text \<open>\<^verbatim>\<open>deletedAt?: Date\<close>, which a storage row may also hold as \<^verbatim>\<open>null\<close>.\<close>

datatype date_slot = DUndefined | DNull | DDate int

text \<open>\<^verbatim>\<open>Partial<BaseEntity>\<close>, the constructor's argument.\<close>

record EntityData =
  d_id :: "string option"
  d_createdAt :: "int option"
  d_updatedAt :: "int option"
  d_createdBy :: "string option"
  d_updatedBy :: "string option"
  d_version :: "int option"
  d_deletedAt :: date_slot
  d_metadata :: "addr option"

definition no_data :: EntityData where
  "no_data = \<lparr> d_id = None, d_createdAt = None, d_updatedAt = None, d_createdBy = None,
               d_updatedBy = None, d_version = None, d_deletedAt = DUndefined, d_metadata = None \<rparr>"

record Entity =
  e_id :: string
  e_createdAt :: int
  e_updatedAt :: int
  e_createdBy :: "string option"
  e_updatedBy :: "string option"
  e_version :: int
  e_deletedAt :: date_slot
  e_metadata :: "addr option"

text \<open>
  The constructor. \<^verbatim>\<open>data.id || createEntityId(nanoid())\<close>,
  \<^verbatim>\<open>data.createdAt || new Date()\<close> (a \<^verbatim>\<open>Date\<close> object is always truthy),
  \<^verbatim>\<open>data.version || 1\<close>, \<^verbatim>\<open>data.metadata || {}\<close> (an object reference is always truthy, and
  is stored as it is: no copy is made).
\<close>

definition Entity_new :: "EntityData \<Rightarrow> string \<Rightarrow> int \<Rightarrow> int \<Rightarrow> store \<Rightarrow> store \<times> Entity" where
  "Entity_new d nanoid nowC nowU s =
     (let (m, s') = (case d_metadata d of Some a \<Rightarrow> (a, s) | None \<Rightarrow> alloc_empty s)
      in (s', \<lparr> e_id = str_or (d_id d) nanoid,
                e_createdAt = (case d_createdAt d of Some t \<Rightarrow> t | None \<Rightarrow> nowC),
                e_updatedAt = (case d_updatedAt d of Some t \<Rightarrow> t | None \<Rightarrow> nowU),
                e_createdBy = d_createdBy d,
                e_updatedBy = d_updatedBy d,
                e_version = num_or (d_version d) 1,
                e_deletedAt = d_deletedAt d,
                e_metadata = Some m \<rparr>))"

text \<open>\<^verbatim>\<open>isDeleted()\<close>: \<^verbatim>\<open>this.deletedAt !== undefined && this.deletedAt !== null\<close>\<close>

definition isDeleted :: "Entity \<Rightarrow> bool" where
  "isDeleted e = (e_deletedAt e \<noteq> DUndefined \<and> e_deletedAt e \<noteq> DNull)"

text \<open>
  \<^verbatim>\<open>markAsUpdated(userId?)\<close>. \<^verbatim>\<open>this.version++\<close> stores the double nearest to the
  version plus one (adding one to a finite double does not overflow).
\<close>

definition markAsUpdated :: "string option \<Rightarrow> int \<Rightarrow> Entity \<Rightarrow> Entity" where
  "markAsUpdated userId now e =
     e\<lparr> e_updatedAt := now,
        e_updatedBy := (if truthy_opt_str userId then userId else e_updatedBy e),
        e_version := nearest_int (e_version e + 1) \<rparr>"

text \<open>
  \<^verbatim>\<open>softDelete(userId?)\<close> and \<^verbatim>\<open>restore(userId?)\<close>: both assign \<^verbatim>\<open>updatedBy\<close> whatever
  \<^verbatim>\<open>userId\<close> is and then call \<^verbatim>\<open>this.markAsUpdated()\<close> with no argument.
\<close>

definition softDelete :: "string option \<Rightarrow> int \<Rightarrow> int \<Rightarrow> Entity \<Rightarrow> Entity" where
  "softDelete userId nowD nowU e =
     markAsUpdated None nowU (e\<lparr> e_deletedAt := DDate nowD, e_updatedBy := userId \<rparr>)"

definition restore :: "string option \<Rightarrow> int \<Rightarrow> Entity \<Rightarrow> Entity" where
  "restore userId nowU e =
     markAsUpdated None nowU (e\<lparr> e_deletedAt := DUndefined, e_updatedBy := userId \<rparr>)"

text \<open>
  \<^verbatim>\<open>addMetadata(key, value)\<close>: creates the metadata object when the field is falsy, writes
  the key \<^emph>\<open>into the object the field refers to\<close>, then \<^verbatim>\<open>markAsUpdated()\<close>.
\<close>

definition addMetadata :: "string \<Rightarrow> jsval \<Rightarrow> int \<Rightarrow> store \<times> Entity \<Rightarrow> store \<times> Entity" where
  "addMetadata key v now se =
     (let (s, e) = se;
          (m, s1) = (case e_metadata e of Some a \<Rightarrow> (a, s) | None \<Rightarrow> alloc_empty s);
          e1 = e\<lparr> e_metadata := Some m \<rparr>;
          s2 = s1\<lparr> st_obj := (st_obj s1)(m := (st_obj s1 m)(key \<mapsto> v)) \<rparr>
      in (s2, markAsUpdated None now e1))"

text \<open>\<^verbatim>\<open>getMetadata(key)\<close>: \<^verbatim>\<open>this.metadata?.[key]\<close>; \<^term>\<open>None\<close> is \<^verbatim>\<open>undefined\<close>.\<close>

definition getMetadata :: "string \<Rightarrow> store \<times> Entity \<Rightarrow> jsval option" where
  "getMetadata key se =
     (let (s, e) = se in case e_metadata e of None \<Rightarrow> None | Some a \<Rightarrow> st_obj s a key)"

text \<open>\<^verbatim>\<open>removeMetadata(key)\<close>: only when the metadata field is truthy.\<close>

definition removeMetadata :: "string \<Rightarrow> int \<Rightarrow> store \<times> Entity \<Rightarrow> store \<times> Entity" where
  "removeMetadata key now se =
     (let (s, e) = se
      in case e_metadata e of
           None \<Rightarrow> (s, e)
         | Some a \<Rightarrow> (s\<lparr> st_obj := (st_obj s)(a := (st_obj s a)(key := None)) \<rparr>,
                      markAsUpdated None now e))"

text \<open>\<^verbatim>\<open>toPlainObject()\<close>: every field as it is; the metadata reference is the same reference.\<close>

definition toPlainObject :: "Entity \<Rightarrow> EntityData" where
  "toPlainObject e =
     \<lparr> d_id = Some (e_id e),
       d_createdAt = Some (e_createdAt e),
       d_updatedAt = Some (e_updatedAt e),
       d_createdBy = e_createdBy e,
       d_updatedBy = e_updatedBy e,
       d_version = Some (e_version e),
       d_deletedAt = e_deletedAt e,
       d_metadata = e_metadata e \<rparr>"

text \<open>
  \<^verbatim>\<open>clone()\<close>: \<^verbatim>\<open>new Constructor(this.toPlainObject())\<close>. \<^verbatim>\<open>Constructor\<close> is the class of
  the entity; the model is the base constructor, which a subclass constructor calls with
  the data it is given.
\<close>

definition clone :: "Entity \<Rightarrow> string \<Rightarrow> int \<Rightarrow> int \<Rightarrow> store \<Rightarrow> store \<times> Entity" where
  "clone e nanoid nowC nowU s = Entity_new (toPlainObject e) nanoid nowC nowU s"

text \<open>\<^verbatim>\<open>equals(other)\<close> and \<^verbatim>\<open>isNewerThan(other)\<close>\<close>

definition equals :: "Entity \<Rightarrow> Entity \<Rightarrow> bool" where
  "equals e other = (e_id e = e_id other \<and> e_version e = e_version other)"

definition isNewerThan :: "Entity \<Rightarrow> Entity \<Rightarrow> bool" where
  "isNewerThan e other = (e_updatedAt e > e_updatedAt other)"

text \<open>
  The five mutating operations as data, each with its arguments and its clock readings, and
  a run of them on one entity in order.
\<close>

datatype mutation =
    MarkAsUpdated "string option" int
  | SoftDelete "string option" int int
  | Restore "string option" int
  | AddMetadata string jsval int
  | RemoveMetadata string int

fun mutate :: "mutation \<Rightarrow> store \<times> Entity \<Rightarrow> store \<times> Entity" where
  "mutate (MarkAsUpdated u t) (s, e) = (s, markAsUpdated u t e)"
| "mutate (SoftDelete u td tu) (s, e) = (s, softDelete u td tu e)"
| "mutate (Restore u t) (s, e) = (s, restore u t e)"
| "mutate (AddMetadata k v t) (s, e) = addMetadata k v t (s, e)"
| "mutate (RemoveMetadata k t) (s, e) = removeMetadata k t (s, e)"

fun mutations :: "mutation list \<Rightarrow> store \<times> Entity \<Rightarrow> store \<times> Entity" where
  "mutations [] se = se"
| "mutations (m # ms) se = mutations ms (mutate m se)"

text \<open>Whether an operation is a \<^verbatim>\<open>removeMetadata\<close>, the one operation with a guard around its body.\<close>

fun is_removeMetadata :: "mutation \<Rightarrow> bool" where
  "is_removeMetadata (RemoveMetadata k t) = True"
| "is_removeMetadata m = False"

section \<open>Asynchronous calls that may reject\<close>

text \<open>
  The repository and the service are abstract classes: their storage primitives and hooks
  are supplied by subclasses. A supplied operation is a function of the world it acts on,
  returning the new world and either its result or the value it throws (\<^term>\<open>Inl\<close>). The
  embedding records every call of a supplied operation, in order, in a trace, so that
  "is invoked", "is never invoked" and "before" are statements about that trace.
  \<^verbatim>\<open>await\<close> of a rejected promise throws; \<^verbatim>\<open>try { ... } catch (error) { ... }\<close> hands
  a throw of the body to the handler, and a throw of the handler is the throw of the whole.
\<close>

type_synonym ('ev, 'w, 'x, 'a) eff = "'ev list \<times> 'w \<Rightarrow> ('x + 'a) \<times> 'ev list \<times> 'w"

definition ret :: "'a \<Rightarrow> ('ev, 'w, 'x, 'a) eff" where
  "ret a = (\<lambda>s. (Inr a, s))"

definition throw :: "'x \<Rightarrow> ('ev, 'w, 'x, 'a) eff" where
  "throw x = (\<lambda>s. (Inl x, s))"

definition andThen :: "('ev, 'w, 'x, 'a) eff \<Rightarrow> ('a \<Rightarrow> ('ev, 'w, 'x, 'b) eff) \<Rightarrow> ('ev, 'w, 'x, 'b) eff" where
  "andThen m f = (\<lambda>s. case m s of (Inl x, s') \<Rightarrow> (Inl x, s') | (Inr a, s') \<Rightarrow> f a s')"

definition tryCatch :: "('ev, 'w, 'x, 'a) eff \<Rightarrow> ('x \<Rightarrow> ('ev, 'w, 'x, 'a) eff) \<Rightarrow> ('ev, 'w, 'x, 'a) eff" where
  "tryCatch m h = (\<lambda>s. case m s of (Inl x, s') \<Rightarrow> h x s' | (Inr a, s') \<Rightarrow> (Inr a, s'))"

definition invoke :: "'ev \<Rightarrow> ('w \<Rightarrow> ('x + 'a) \<times> 'w) \<Rightarrow> ('ev, 'w, 'x, 'a) eff" where
  "invoke ev prim = (\<lambda>(tr, w). case prim w of (r, w') \<Rightarrow> (r, tr @ [ev], w'))"

text \<open>
  A storage primitive is declared to return a promise, and a subclass may write it as a
  plain method. A call of it then either throws before it returns anything
  (synchronously), or returns a promise, which resolves to a value or rejects; a promise
  that rejects carries the time at which it does (only the order of two such times is
  read). Under \<^verbatim>\<open>await\<close> the synchronous throw and the rejection are the same throw.
\<close>

datatype ('x, 'a) called = Throws 'x | Rejects nat 'x | Resolves 'a

fun awaited :: "('x, 'a) called \<Rightarrow> 'x + 'a" where
  "awaited (Throws x) = Inl x"
| "awaited (Rejects t x) = Inl x"
| "awaited (Resolves a) = Inr a"

definition awaitCall :: "'ev \<Rightarrow> ('w \<Rightarrow> ('x, 'a) called \<times> 'w) \<Rightarrow> ('ev, 'w, 'x, 'a) eff" where
  "awaitCall ev prim = invoke ev (\<lambda>w. case prim w of (c, w') \<Rightarrow> (awaited c, w'))"

text \<open>
  \<^verbatim>\<open>await Promise.all([a(), b()])\<close>. The array literal is evaluated first, one call
  after the other: when \<^verbatim>\<open>a()\<close> throws synchronously, \<^verbatim>\<open>b\<close> is never called and that throw
  is the result; when \<^verbatim>\<open>b()\<close> throws synchronously, that throw is the result, whatever the
  promise of \<^verbatim>\<open>a\<close> does. With two promises, the result is the pair of their values, or the
  rejection of the one that rejects first (of the first in the array when neither is
  earlier). Each call acts on the world when it is made.
\<close>

definition awaitBoth ::
  "'ev \<Rightarrow> ('w \<Rightarrow> ('x, 'a) called \<times> 'w) \<Rightarrow> 'ev \<Rightarrow> ('w \<Rightarrow> ('x, 'b) called \<times> 'w)
     \<Rightarrow> ('ev, 'w, 'x, 'a \<times> 'b) eff" where
  "awaitBoth ev1 prim1 ev2 prim2 =
     (\<lambda>(tr, w).
        case prim1 w of
          (c1, w1) \<Rightarrow>
            (case c1 of
               Throws x \<Rightarrow> (Inl x, tr @ [ev1], w1)
             | _ \<Rightarrow>
                 (case prim2 w1 of
                    (c2, w2) \<Rightarrow>
                      ((case c2 of
                          Throws y \<Rightarrow> Inl y
                        | Rejects u y \<Rightarrow>
                            (case c1 of Rejects t x \<Rightarrow> if u < t then Inl y else Inl x | _ \<Rightarrow> Inl y)
                        | Resolves b \<Rightarrow>
                            (case c1 of Resolves a \<Rightarrow> Inr (a, b) | Rejects t x \<Rightarrow> Inl x | Throws x \<Rightarrow> Inl x)),
                       tr @ [ev1, ev2], w2))))"


text \<open>The parts of a finished run, started on an empty trace.\<close>

definition run :: "('ev, 'w, 'x, 'a) eff \<Rightarrow> 'w \<Rightarrow> ('x + 'a) \<times> 'ev list \<times> 'w" where
  "run m w = m ([], w)"

definition outcome :: "('x + 'a) \<times> 'ev list \<times> 'w \<Rightarrow> 'x + 'a" where
  "outcome r = fst r"

definition calls :: "('x + 'a) \<times> 'ev list \<times> 'w \<Rightarrow> 'ev list" where
  "calls r = fst (snd r)"

section \<open>Filter criteria and the repository (types.ts, base/repository.ts)\<close>

datatype FilterOperator =
    OpEq | OpNe | OpGt | OpGte | OpLt | OpLte | OpLike | OpIlike | OpStartsWith | OpEndsWith
  | OpContains | OpIn | OpNotIn | OpIsNull | OpIsNotNull | OpBetween

record FilterCondition =
  cond_field :: string
  cond_operator :: FilterOperator
  cond_value :: "jsval option"
  cond_values :: "jsval list option"

datatype Logic = LogicAND | LogicOR

datatype FilterCriteria =
  FilterCriteria (fc_conditions: "FilterCondition list option")
                 (fc_logic: "Logic option")
                 (fc_groups: "FilterCriteria list option")

text \<open>The object literal \<^verbatim>\<open>{}\<close> as a \<^verbatim>\<open>FilterCriteria\<close>.\<close>

definition empty_criteria :: FilterCriteria where
  "empty_criteria = FilterCriteria None None None"

record FindOptions =
  fo_include :: "string list option"
  fo_exclude :: "string list option"
  fo_withDeleted :: "bool option"
  fo_forUpdate :: "bool option"

text \<open>\<^verbatim>\<open>ListOptions extends FindOptions, PaginationOptions\<close> (its sort and search are not read here).\<close>

record ListOptions = FindOptions +
  lo_page :: "int option"
  lo_limit :: "int option"
  lo_offset :: "int option"
  lo_cursor :: "string option"
  lo_filter :: "FilterCriteria option"

text \<open>
  The \<^verbatim>\<open>options?: FindOptions\<close> argument as a call receives it: absent, a
  \<^verbatim>\<open>FindOptions\<close> object, or (from \<^verbatim>\<open>list\<close>) the \<^verbatim>\<open>ListOptions\<close> object itself.
\<close>

datatype QueryOptions = NoOptions | OfFind FindOptions | OfList ListOptions

text \<open>\<^verbatim>\<open>options?.withDeleted\<close>, as a condition.\<close>

fun withDeleted :: "QueryOptions \<Rightarrow> bool" where
  "withDeleted NoOptions = False"
| "withDeleted (OfFind opts) = truthy_flag (fo_withDeleted opts)"
| "withDeleted (OfList opts) = truthy_flag (fo_withDeleted opts)"

record RepositoryConfig =
  rc_softDelete :: "bool option"
  rc_timestamps :: "bool option"
  rc_auditTrail :: "bool option"
  rc_tenantIsolation :: "bool option"
  rc_optimisticLocking :: "bool option"
  rc_caching :: "bool option"
  rc_cacheTtl :: "int option"

text \<open>\<^verbatim>\<open>{ ...defaults, ...config }\<close> for one property: the default unless the key is supplied.\<close>

definition supplied_or :: "'a option \<Rightarrow> 'a \<Rightarrow> 'a option" where
  "supplied_or x d = (case x of None \<Rightarrow> Some d | Some v \<Rightarrow> Some v)"



text \<open>The object literal \<^verbatim>\<open>{ field: 'deletedAt', operator: 'isNull' }\<close>.\<close>

definition deleteFilter :: FilterCondition where
  "deleteFilter = \<lparr> cond_field = ''deletedAt'', cond_operator = OpIsNull,
                    cond_value = None, cond_values = None \<rparr>"

text \<open>\<^verbatim>\<open>criteria || {}\<close> and \<^verbatim>\<open>criteria.conditions || []\<close> (objects and arrays are truthy).\<close>

definition criteria_or_empty :: "FilterCriteria option \<Rightarrow> FilterCriteria" where
  "criteria_or_empty criteria = (case criteria of None \<Rightarrow> empty_criteria | Some c \<Rightarrow> c)"

definition conditions_or_empty :: "FilterCriteria \<Rightarrow> FilterCondition list" where
  "conditions_or_empty c = (case fc_conditions c of None \<Rightarrow> [] | Some cs \<Rightarrow> cs)"

text \<open>
  \<^verbatim>\<open>applySoftDeleteFilter(criteria?, options?)\<close>. The spread \<^verbatim>\<open>{ ...criteria, conditions: ... }\<close>
  keeps the caller's \<^verbatim>\<open>logic\<close> and \<^verbatim>\<open>groups\<close>.
\<close>

definition applySoftDeleteFilter :: "RepositoryConfig \<Rightarrow> FilterCriteria option \<Rightarrow> QueryOptions \<Rightarrow> FilterCriteria" where
  "applySoftDeleteFilter config criteria options =
     (if \<not> truthy_flag (rc_softDelete config) \<or> withDeleted options
      then criteria_or_empty criteria
      else (case criteria of
              None \<Rightarrow> FilterCriteria (Some [deleteFilter]) None None
            | Some c \<Rightarrow>
                FilterCriteria (Some (conditions_or_empty c @ [deleteFilter])) (fc_logic c) (fc_groups c)))"


text \<open>
  The storage primitives the read paths call, and the \<^verbatim>\<open>onError\<close> hook, as a subclass
  supplies them (the hook's third argument, a record of the call's own inputs and a trace
  id, is left out); and the calls the trace records, each with the arguments it was given.
  The hook is only ever called under \<^verbatim>\<open>await\<close>, where its synchronous throw and its
  rejection are one case.
\<close>

record ('w, 'x) Storage =
  executeFindById :: "string \<Rightarrow> QueryOptions \<Rightarrow> 'w \<Rightarrow> ('x, Entity option) called \<times> 'w"
  executeFindMany :: "FilterCriteria \<Rightarrow> QueryOptions \<Rightarrow> 'w \<Rightarrow> ('x, Entity list) called \<times> 'w"
  executeCount :: "FilterCriteria \<Rightarrow> 'w \<Rightarrow> ('x, int) called \<times> 'w"
  repo_onError :: "string \<Rightarrow> 'x \<Rightarrow> 'w \<Rightarrow> ('x + unit) \<times> 'w"

datatype storage_call =
    ExecFindById string QueryOptions
  | ExecFindMany FilterCriteria QueryOptions
  | ExecCount FilterCriteria
  | OnError string





record 'a PaginatedResult =
  pr_data :: "'a list"
  pr_page :: int
  pr_limit :: int
  pr_total :: int
  pr_hasNext :: bool
  pr_hasPrev :: bool

text \<open>
  \<^verbatim>\<open>list(options)\<close>: the two storage calls are the elements of the array handed to
  \<^verbatim>\<open>Promise.all\<close>. There is no \<^verbatim>\<open>try\<close> block here; a throw or a rejection passes through
  as it is, as the rejection of \<^verbatim>\<open>list\<close>.
\<close>

definition list :: "RepositoryConfig \<Rightarrow> ('w, 'x) Storage \<Rightarrow> ListOptions \<Rightarrow> (storage_call, 'w, 'x, Entity PaginatedResult) eff" where
  "list config st options =
     (let page = num_or (lo_page options) 1;
          limit = num_or (lo_limit options) 10;
          criteria = criteria_or_empty (lo_filter options);
          enhancedCriteria = applySoftDeleteFilter config (Some criteria) (OfList options)
      in andThen
           (awaitBoth
              (ExecFindMany enhancedCriteria (OfList options))
              (executeFindMany st enhancedCriteria (OfList options))
              (ExecCount enhancedCriteria) (executeCount st enhancedCriteria))
           (\<lambda>(entities, totalCount).
              let totalPages = ceil_div totalCount limit
              in ret \<lparr> pr_data = entities, pr_page = page, pr_limit = limit, pr_total = totalCount,
                       pr_hasNext = int_less_jsnum page totalPages, pr_hasPrev = (page > 1) \<rparr>))"






text \<open>
  Storages for the worked examples: one with one soft-deleted row \<^verbatim>\<open>e1\<close>, where nothing
  fails; and one whose \<^verbatim>\<open>executeFindMany\<close> is a plain method that throws.
\<close>

definition deleted_row :: Entity where
  "deleted_row = \<lparr> e_id = ''e1'', e_createdAt = 1, e_updatedAt = 2, e_createdBy = None,
                   e_updatedBy = None, e_version = 2, e_deletedAt = DDate 2, e_metadata = None \<rparr>"







section \<open>The service (base/service.ts)\<close>

record ServiceConfig =
  sc_validation :: "bool option"
  sc_events :: "bool option"
  sc_auditTrail :: "bool option"
  sc_caching :: "bool option"
  sc_retries :: "int option"

text \<open>The constructor of \<^verbatim>\<open>BaseService\<close>: \<^verbatim>\<open>this.config\<close>.\<close>

definition BaseService_config :: "ServiceConfig \<Rightarrow> ServiceConfig" where
  "BaseService_config config =
     \<lparr> sc_validation = supplied_or (sc_validation config) True,
       sc_events = supplied_or (sc_events config) False,
       sc_auditTrail = supplied_or (sc_auditTrail config) False,
       sc_caching = supplied_or (sc_caching config) False,
       sc_retries = supplied_or (sc_retries config) 0 \<rparr>"

definition default_service_config :: ServiceConfig where
  "default_service_config =
     \<lparr> sc_validation = None, sc_events = None, sc_auditTrail = None, sc_caching = None,
       sc_retries = None \<rparr>"

text \<open>The context object handed to \<^verbatim>\<open>onError\<close>: \<^verbatim>\<open>{ data, options, traceId }\<close>, with the id for an update.\<close>

datatype ('i, 'u, 'o) error_context =
    CreateContext 'i 'o string
  | UpdateContext string 'u 'o string

text \<open>
  What a subclass and the constructor supply: the hooks (each empty in the base class) and
  the repository's \<^verbatim>\<open>create\<close> and \<^verbatim>\<open>update\<close>. \<open>'i\<close> is the create input, \<open>'u\<close> the update
  input, \<open>'o\<close> the options, \<open>'e\<close> the entity, \<open>'x\<close> what is thrown, \<open>'w\<close> the world.
\<close>

record ('w, 'x, 'i, 'u, 'o, 'e) ServiceParts =
  beforeCreate :: "'i \<Rightarrow> 'o \<Rightarrow> 'w \<Rightarrow> ('x + unit) \<times> 'w"
  validateCreate :: "'i \<Rightarrow> 'o \<Rightarrow> 'w \<Rightarrow> ('x + unit) \<times> 'w"
  repository_create :: "'i \<Rightarrow> 'o \<Rightarrow> 'w \<Rightarrow> ('x + 'e) \<times> 'w"
  afterCreate :: "'e \<Rightarrow> 'o \<Rightarrow> 'w \<Rightarrow> ('x + unit) \<times> 'w"
  beforeUpdate :: "string \<Rightarrow> 'u \<Rightarrow> 'o \<Rightarrow> 'w \<Rightarrow> ('x + unit) \<times> 'w"
  validateUpdate :: "string \<Rightarrow> 'u \<Rightarrow> 'o \<Rightarrow> 'w \<Rightarrow> ('x + unit) \<times> 'w"
  repository_update :: "string \<Rightarrow> 'u \<Rightarrow> 'o \<Rightarrow> 'w \<Rightarrow> ('x + 'e) \<times> 'w"
  afterUpdate :: "'e \<Rightarrow> 'o \<Rightarrow> 'w \<Rightarrow> ('x + unit) \<times> 'w"
  service_onError :: "string \<Rightarrow> 'x \<Rightarrow> ('i, 'u, 'o) error_context \<Rightarrow> 'w \<Rightarrow> ('x + unit) \<times> 'w"

datatype service_call =
    BeforeCreate | ValidateCreate | RepositoryCreate | AfterCreate
  | BeforeUpdate | ValidateUpdate | RepositoryUpdate | AfterUpdate
  | ServiceOnError string

text \<open>
  \<^verbatim>\<open>create(data, options?)\<close>. \<^verbatim>\<open>traceId\<close> is the result of \<^verbatim>\<open>generateTraceId()\<close>, made before
  the \<^verbatim>\<open>try\<close> block.
\<close>

definition service_create ::
  "ServiceConfig \<Rightarrow> ('w, 'x, 'i, 'u, 'o, 'e) ServiceParts \<Rightarrow> string \<Rightarrow> 'i \<Rightarrow> 'o \<Rightarrow> (service_call, 'w, 'x, 'e) eff" where
  "service_create config sv traceId data options =
     tryCatch
       (andThen (invoke BeforeCreate (beforeCreate sv data options))
          (\<lambda>_. andThen (if truthy_flag (sc_validation config)
                          then invoke ValidateCreate (validateCreate sv data options)
                          else ret ())
            (\<lambda>_. andThen (invoke RepositoryCreate (repository_create sv data options))
              (\<lambda>entity. andThen (invoke AfterCreate (afterCreate sv entity options))
                (\<lambda>_. ret entity)))))
       (\<lambda>error.
          andThen (invoke (ServiceOnError ''create'')
                     (service_onError sv ''create'' error (CreateContext data options traceId)))
            (\<lambda>_. throw error))"

text \<open>\<^verbatim>\<open>update(id, data, options?)\<close>\<close>

definition service_update ::
  "ServiceConfig \<Rightarrow> ('w, 'x, 'i, 'u, 'o, 'e) ServiceParts \<Rightarrow> string \<Rightarrow> string \<Rightarrow> 'u \<Rightarrow> 'o \<Rightarrow> (service_call, 'w, 'x, 'e) eff" where
  "service_update config sv traceId ident data options =
     tryCatch
       (andThen (invoke BeforeUpdate (beforeUpdate sv ident data options))
          (\<lambda>_. andThen (if truthy_flag (sc_validation config)
                          then invoke ValidateUpdate (validateUpdate sv ident data options)
                          else ret ())
            (\<lambda>_. andThen (invoke RepositoryUpdate (repository_update sv ident data options))
              (\<lambda>entity. andThen (invoke AfterUpdate (afterUpdate sv entity options))
                (\<lambda>_. ret entity)))))
       (\<lambda>error.
          andThen (invoke (ServiceOnError ''update'')
                     (service_onError sv ''update'' error (UpdateContext ident data options traceId)))
            (\<lambda>_. throw error))"

text \<open>
  "\<open>a\<close> is invoked strictly before \<open>b\<close>" in a trace: whenever \<open>b\<close> occurs, \<open>a\<close> occurs in
  the part of the trace that precedes the first \<open>b\<close>.
\<close>

definition invoked_before :: "'ev \<Rightarrow> 'ev \<Rightarrow> 'ev list \<Rightarrow> bool" where
  "invoked_before a b tr = (if b \<in> set tr then a \<in> set (takeWhile (\<lambda>ev. ev \<noteq> b) tr) else True)"

text \<open>
  A service for the worked examples. The world counts the rows stored; the create input is
  a name, and the validation hook raises on the empty name; an update is validated in the
  same way; no other hook raises.
\<close>

definition name_service :: "(nat, string, string, string, unit, string) ServiceParts" where
  "name_service =
     \<lparr> beforeCreate = (\<lambda>data options w. (Inr (), w)),
       validateCreate = (\<lambda>data options w. (if data = [] then Inl ''name is required'' else Inr (), w)),
       repository_create = (\<lambda>data options w. (Inr data, Suc w)),
       afterCreate = (\<lambda>entity options w. (Inr (), w)),
       beforeUpdate = (\<lambda>ident data options w. (Inr (), w)),
       validateUpdate = (\<lambda>ident data options w. (if data = [] then Inl ''name is required'' else Inr (), w)),
       repository_update = (\<lambda>ident data options w. (Inr data, w)),
       afterUpdate = (\<lambda>entity options w. (Inr (), w)),
       service_onError = (\<lambda>operation error ctx w. (Inr (), w)) \<rparr>"

text \<open>The same service with an \<^verbatim>\<open>onError\<close> override that itself throws.\<close>

definition throwing_handler_service :: "(nat, string, string, string, unit, string) ServiceParts" where
  "throwing_handler_service =
     name_service\<lparr> service_onError := (\<lambda>operation error ctx w. (Inl ''handler failed'', w)) \<rparr>"

section \<open>The error taxonomy (errors/base.ts, errors/domain.ts)\<close>

text \<open>
  A value of type \<^verbatim>\<open>unknown\<close> as \<^verbatim>\<open>JSON.stringify\<close> meets it: a primitive it can write, a
  \<^verbatim>\<open>BigInt\<close>, an array, an object with its properties in order, or a reference back to an
  object that is being written (a circular structure). \<^verbatim>\<open>JSON.stringify\<close> walks the
  value depth first, in property order, and throws a \<^verbatim>\<open>TypeError\<close> at the first \<^verbatim>\<open>BigInt\<close>
  or back reference it meets.
\<close>

datatype json_input =
    JValue jsval
  | JBigInt int
  | JArray "json_input list"
  | JObject "(string \<times> json_input) list"
  | JBackReference

datatype stringify_error = BigIntNotSerializable | CircularStructure

fun first_some :: "'a option list \<Rightarrow> 'a option" where
  "first_some [] = None"
| "first_some (None # xs) = first_some xs"
| "first_some (Some a # xs) = Some a"

fun stringify_failure :: "json_input \<Rightarrow> stringify_error option" where
  "stringify_failure (JValue v) = None"
| "stringify_failure (JBigInt n) = Some BigIntNotSerializable"
| "stringify_failure (JArray xs) = first_some (map stringify_failure xs)"
| "stringify_failure (JObject kvs) = first_some (map (\<lambda>kv. stringify_failure (snd kv)) kvs)"
| "stringify_failure JBackReference = Some CircularStructure"

text \<open>
  \<^verbatim>\<open>ErrorContext\<close>. Its \<^verbatim>\<open>metadata\<close> is a free-form \<^verbatim>\<open>Record<string, unknown>\<close>; every other
  property is a string. \<^verbatim>\<open>logError\<close> hands the whole context to \<^verbatim>\<open>JSON.stringify\<close>.
\<close>

record ErrorContext =
  ec_traceId :: string
  ec_operation :: "string option"
  ec_entityType :: "string option"
  ec_entityId :: "string option"
  ec_userId :: "string option"
  ec_tenantId :: "string option"
  ec_metadata :: "(string \<times> json_input) list option"

text \<open>What \<^verbatim>\<open>JSON.stringify\<close> throws on a record that holds this context, if it throws.\<close>

definition context_failure :: "ErrorContext option \<Rightarrow> stringify_error option" where
  "context_failure ctx =
     (case ctx of
        None \<Rightarrow> None
      | Some c \<Rightarrow> (case ec_metadata c of None \<Rightarrow> None | Some kvs \<Rightarrow> stringify_failure (JObject kvs)))"

record ValidationIssue =
  vi_field :: string
  vi_message :: string
  vi_code :: string
  vi_value :: "jsval option"

text \<open>
  The class of an error object with the fields its class adds. \<^verbatim>\<open>instanceof\<close> tests the
  class; \<^verbatim>\<open>DomainValidationError extends ValidationError\<close>, every other class extends
  \<^verbatim>\<open>BaseError\<close> directly.
\<close>

datatype ErrorClass =
    ValidationError "ValidationIssue list"
  | DomainValidationError "ValidationIssue list" string
  | NotFoundError string "string option"
  | ConflictError string "jsval option"
  | UnauthorizedError
  | ForbiddenError
  | RateLimitError "int option"
  | InternalServerError
  | DatabaseError string "string option"
  | NetworkError "string option" "string option"
  | BusinessRuleError string "(string \<times> jsval) list option"
  | ConcurrencyError int int
  | InvariantViolationError string string string
  | ResourceExhaustedError string int int
  | TimeoutError string int

record BaseError =
  be_class :: ErrorClass
  be_message :: string
  be_code :: string
  be_statusCode :: int
  be_traceId :: string
  be_context :: "ErrorContext option"
  be_timestamp :: int

text \<open>
  The constructor of \<^verbatim>\<open>BaseError\<close>, called by every subclass as
  \<^verbatim>\<open>super(message, code, statusCode, context)\<close>:
  \<^verbatim>\<open>this.traceId = context?.traceId || generateTraceId()\<close>, \<^verbatim>\<open>this.timestamp = new Date()\<close>.
\<close>

definition BaseError_new :: "ErrorClass \<Rightarrow> string \<Rightarrow> string \<Rightarrow> int \<Rightarrow> ErrorContext option \<Rightarrow> string \<Rightarrow> int \<Rightarrow> BaseError" where
  "BaseError_new cls message code statusCode ctx nanoid now =
     \<lparr> be_class = cls, be_message = message, be_code = code, be_statusCode = statusCode,
       be_traceId = str_or (map_option ec_traceId ctx) nanoid,
       be_context = ctx, be_timestamp = now \<rparr>"

text \<open>A parameter with a default (\<^verbatim>\<open>message = 'Unauthorized'\<close>): the default replaces \<^verbatim>\<open>undefined\<close> only.\<close>

definition defaulted :: "'a option \<Rightarrow> 'a \<Rightarrow> 'a" where
  "defaulted x d = (case x of None \<Rightarrow> d | Some v \<Rightarrow> v)"

text \<open>The message both \<^verbatim>\<open>NotFoundError\<close> and \<^verbatim>\<open>createNotFoundResponse\<close> build.\<close>

definition not_found_message :: "string \<Rightarrow> string option \<Rightarrow> string" where
  "not_found_message resource identifier =
     (case identifier of
        None \<Rightarrow> resource @ '' not found''
      | Some i \<Rightarrow> if truthy_str i then resource @ '' with identifier '' @ [CHR 0x27] @ i @ [CHR 0x27] @ '' not found''
                  else resource @ '' not found'')"

definition new_ValidationError :: "string \<Rightarrow> ValidationIssue list option \<Rightarrow> ErrorContext option \<Rightarrow> string \<Rightarrow> int \<Rightarrow> BaseError" where
  "new_ValidationError message issues ctx nanoid now =
     BaseError_new (ValidationError (defaulted issues [])) message ''VALIDATION_ERROR'' 400 ctx nanoid now"

definition new_NotFoundError :: "string \<Rightarrow> string option \<Rightarrow> ErrorContext option \<Rightarrow> string \<Rightarrow> int \<Rightarrow> BaseError" where
  "new_NotFoundError resource identifier ctx nanoid now =
     BaseError_new (NotFoundError resource identifier) (not_found_message resource identifier)
       ''NOT_FOUND'' 404 ctx nanoid now"

definition new_ConflictError :: "string \<Rightarrow> string option \<Rightarrow> jsval option \<Rightarrow> ErrorContext option \<Rightarrow> string \<Rightarrow> int \<Rightarrow> BaseError" where
  "new_ConflictError message conflictType conflictingValue ctx nanoid now =
     BaseError_new (ConflictError (defaulted conflictType ''RESOURCE_CONFLICT'') conflictingValue)
       message ''CONFLICT'' 409 ctx nanoid now"

definition new_UnauthorizedError :: "string option \<Rightarrow> ErrorContext option \<Rightarrow> string \<Rightarrow> int \<Rightarrow> BaseError" where
  "new_UnauthorizedError message ctx nanoid now =
     BaseError_new UnauthorizedError (defaulted message ''Unauthorized'') ''UNAUTHORIZED'' 401 ctx nanoid now"

definition new_ForbiddenError :: "string option \<Rightarrow> ErrorContext option \<Rightarrow> string \<Rightarrow> int \<Rightarrow> BaseError" where
  "new_ForbiddenError message ctx nanoid now =
     BaseError_new ForbiddenError (defaulted message ''Forbidden'') ''FORBIDDEN'' 403 ctx nanoid now"

definition new_RateLimitError :: "string option \<Rightarrow> int option \<Rightarrow> ErrorContext option \<Rightarrow> string \<Rightarrow> int \<Rightarrow> BaseError" where
  "new_RateLimitError message retryAfter ctx nanoid now =
     BaseError_new (RateLimitError retryAfter) (defaulted message ''Rate limit exceeded'')
       ''RATE_LIMIT_EXCEEDED'' 429 ctx nanoid now"

definition new_InternalServerError :: "string option \<Rightarrow> ErrorContext option \<Rightarrow> string \<Rightarrow> int \<Rightarrow> BaseError" where
  "new_InternalServerError message ctx nanoid now =
     BaseError_new InternalServerError (defaulted message ''Internal server error'')
       ''INTERNAL_SERVER_ERROR'' 500 ctx nanoid now"

definition new_DatabaseError :: "string \<Rightarrow> string \<Rightarrow> string option \<Rightarrow> ErrorContext option \<Rightarrow> string \<Rightarrow> int \<Rightarrow> BaseError" where
  "new_DatabaseError message operation query ctx nanoid now =
     BaseError_new (DatabaseError operation query) message ''DATABASE_ERROR'' 500 ctx nanoid now"

definition new_NetworkError :: "string \<Rightarrow> string option \<Rightarrow> string option \<Rightarrow> ErrorContext option \<Rightarrow> string \<Rightarrow> int \<Rightarrow> BaseError" where
  "new_NetworkError message endpoint http_method ctx nanoid now =
     BaseError_new (NetworkError endpoint http_method) message ''NETWORK_ERROR'' 503 ctx nanoid now"

definition new_BusinessRuleError :: "string \<Rightarrow> string \<Rightarrow> (string \<times> jsval) list option \<Rightarrow> ErrorContext option \<Rightarrow> string \<Rightarrow> int \<Rightarrow> BaseError" where
  "new_BusinessRuleError message rule ruleParams ctx nanoid now =
     BaseError_new (BusinessRuleError rule ruleParams) message ''BUSINESS_RULE_ERROR'' 422 ctx nanoid now"

definition new_ConcurrencyError :: "string \<Rightarrow> int \<Rightarrow> int \<Rightarrow> ErrorContext option \<Rightarrow> string \<Rightarrow> int \<Rightarrow> BaseError" where
  "new_ConcurrencyError message expectedVersion actualVersion ctx nanoid now =
     BaseError_new (ConcurrencyError expectedVersion actualVersion) message ''CONCURRENCY_ERROR'' 409
       ctx nanoid now"

definition new_DomainValidationError :: "string \<Rightarrow> string \<Rightarrow> ValidationIssue list option \<Rightarrow> ErrorContext option \<Rightarrow> string \<Rightarrow> int \<Rightarrow> BaseError" where
  "new_DomainValidationError message entityType issues ctx nanoid now =
     BaseError_new (DomainValidationError (defaulted issues []) entityType) message
       ''VALIDATION_ERROR'' 400 ctx nanoid now"

definition new_InvariantViolationError :: "string \<Rightarrow> string \<Rightarrow> string \<Rightarrow> string \<Rightarrow> ErrorContext option \<Rightarrow> string \<Rightarrow> int \<Rightarrow> BaseError" where
  "new_InvariantViolationError message invariant aggregateId aggregateType ctx nanoid now =
     BaseError_new (InvariantViolationError invariant aggregateId aggregateType) message
       ''INVARIANT_VIOLATION'' 422 ctx nanoid now"

definition new_ResourceExhaustedError :: "string \<Rightarrow> string \<Rightarrow> int \<Rightarrow> int \<Rightarrow> ErrorContext option \<Rightarrow> string \<Rightarrow> int \<Rightarrow> BaseError" where
  "new_ResourceExhaustedError message resource limit current ctx nanoid now =
     BaseError_new (ResourceExhaustedError resource limit current) message ''RESOURCE_EXHAUSTED'' 429
       ctx nanoid now"

definition new_TimeoutError :: "string \<Rightarrow> string \<Rightarrow> int \<Rightarrow> ErrorContext option \<Rightarrow> string \<Rightarrow> int \<Rightarrow> BaseError" where
  "new_TimeoutError message operation timeoutMs ctx nanoid now =
     BaseError_new (TimeoutError operation timeoutMs) message ''TIMEOUT_ERROR'' 408 ctx nanoid now"

datatype Severity = Low | Medium | High | Critical

text \<open>\<^verbatim>\<open>getSeverity()\<close>, \<^verbatim>\<open>isRetryable()\<close> and \<^verbatim>\<open>this.constructor.name\<close>, by class.\<close>

fun getSeverity :: "ErrorClass \<Rightarrow> Severity" where
  "getSeverity (ValidationError issues) = Low"
| "getSeverity (DomainValidationError issues entityType) = Low"
| "getSeverity (NotFoundError resource identifier) = Low"
| "getSeverity (ConflictError conflictType conflictingValue) = Medium"
| "getSeverity UnauthorizedError = Medium"
| "getSeverity ForbiddenError = Medium"
| "getSeverity (RateLimitError retryAfter) = Medium"
| "getSeverity InternalServerError = High"
| "getSeverity (DatabaseError operation query) = High"
| "getSeverity (NetworkError endpoint http_method) = High"
| "getSeverity (BusinessRuleError rule ruleParams) = Medium"
| "getSeverity (ConcurrencyError expectedVersion actualVersion) = Medium"
| "getSeverity (InvariantViolationError invariant aggregateId aggregateType) = High"
| "getSeverity (ResourceExhaustedError resource limit current) = Medium"
| "getSeverity (TimeoutError operation timeoutMs) = Medium"

fun isRetryable :: "ErrorClass \<Rightarrow> bool" where
  "isRetryable (ValidationError issues) = False"
| "isRetryable (DomainValidationError issues entityType) = False"
| "isRetryable (NotFoundError resource identifier) = False"
| "isRetryable (ConflictError conflictType conflictingValue) = False"
| "isRetryable UnauthorizedError = False"
| "isRetryable ForbiddenError = False"
| "isRetryable (RateLimitError retryAfter) = True"
| "isRetryable InternalServerError = True"
| "isRetryable (DatabaseError operation query) = True"
| "isRetryable (NetworkError endpoint http_method) = True"
| "isRetryable (BusinessRuleError rule ruleParams) = False"
| "isRetryable (ConcurrencyError expectedVersion actualVersion) = True"
| "isRetryable (InvariantViolationError invariant aggregateId aggregateType) = False"
| "isRetryable (ResourceExhaustedError resource limit current) = True"
| "isRetryable (TimeoutError operation timeoutMs) = True"

fun class_name :: "ErrorClass \<Rightarrow> string" where
  "class_name (ValidationError issues) = ''ValidationError''"
| "class_name (DomainValidationError issues entityType) = ''DomainValidationError''"
| "class_name (NotFoundError resource identifier) = ''NotFoundError''"
| "class_name (ConflictError conflictType conflictingValue) = ''ConflictError''"
| "class_name UnauthorizedError = ''UnauthorizedError''"
| "class_name ForbiddenError = ''ForbiddenError''"
| "class_name (RateLimitError retryAfter) = ''RateLimitError''"
| "class_name InternalServerError = ''InternalServerError''"
| "class_name (DatabaseError operation query) = ''DatabaseError''"
| "class_name (NetworkError endpoint http_method) = ''NetworkError''"
| "class_name (BusinessRuleError rule ruleParams) = ''BusinessRuleError''"
| "class_name (ConcurrencyError expectedVersion actualVersion) = ''ConcurrencyError''"
| "class_name (InvariantViolationError invariant aggregateId aggregateType) = ''InvariantViolationError''"
| "class_name (ResourceExhaustedError resource limit current) = ''ResourceExhaustedError''"
| "class_name (TimeoutError operation timeoutMs) = ''TimeoutError''"

section \<open>Response envelopes (utils/response.ts)\<close>

datatype error_details = IssuesDetails "ValidationIssue list" | RetryAfterDetails int

text \<open>\<^verbatim>\<open>ApiError\<close>: the descriptor a response factory builds.\<close>

record ApiError =
  ae_code :: string
  ae_message :: string
  ae_details :: "error_details option"
  ae_field :: "string option"
  ae_traceId :: string

text \<open>
  \<^verbatim>\<open>ApiResponse<T>\<close>: \<^verbatim>\<open>{ success, data?, error?: string, message?, timestamp, traceId }\<close>.
  These are all its properties; it has none for an error code or for details.
\<close>

record ApiResponse =
  ar_success :: bool
  ar_data :: "jsval option"
  ar_error :: "string option"
  ar_message :: "string option"
  ar_timestamp :: int
  ar_traceId :: string

text \<open>
  \<^verbatim>\<open>createErrorResponse(error, message?, traceId?)\<close>. Of the descriptor, the result takes
  the message (twice) and the trace id. \<^verbatim>\<open>nanoid\<close> is what \<^verbatim>\<open>generateTraceId()\<close> returns if
  it is called, \<^verbatim>\<open>now\<close> what \<^verbatim>\<open>getCurrentTimestamp()\<close> returns.
\<close>

definition createErrorResponse :: "string + ApiError \<Rightarrow> string option \<Rightarrow> string option \<Rightarrow> string \<Rightarrow> int \<Rightarrow> ApiResponse" where
  "createErrorResponse error message traceId nanoid now =
     (let errorDetails =
            (case error of
               Inl s \<Rightarrow> \<lparr> ae_code = ''UNKNOWN_ERROR'', ae_message = s, ae_details = None,
                          ae_field = None, ae_traceId = str_or traceId nanoid \<rparr>
             | Inr d \<Rightarrow> d)
      in \<lparr> ar_success = False,
           ar_data = None,
           ar_error = Some (ae_message errorDetails),
           ar_message = Some (str_or message (ae_message errorDetails)),
           ar_timestamp = now,
           ar_traceId = ae_traceId errorDetails \<rparr>)"

definition createValidationErrorResponse :: "ValidationIssue list \<Rightarrow> string option \<Rightarrow> string \<Rightarrow> int \<Rightarrow> ApiResponse" where
  "createValidationErrorResponse issues traceId nanoid now =
     createErrorResponse
       (Inr \<lparr> ae_code = ''VALIDATION_ERROR'', ae_message = ''Validation failed'',
               ae_details = Some (IssuesDetails issues), ae_field = None,
               ae_traceId = str_or traceId nanoid \<rparr>)
       (Some ''Validation failed'') traceId nanoid now"

definition createNotFoundResponse :: "string \<Rightarrow> string option \<Rightarrow> string option \<Rightarrow> string \<Rightarrow> int \<Rightarrow> ApiResponse" where
  "createNotFoundResponse resource identifier traceId nanoid now =
     (let message = not_found_message resource identifier
      in createErrorResponse
           (Inr \<lparr> ae_code = ''NOT_FOUND'', ae_message = message, ae_details = None, ae_field = None,
                   ae_traceId = str_or traceId nanoid \<rparr>)
           (Some message) traceId nanoid now)"

definition createUnauthorizedResponse :: "string option \<Rightarrow> string option \<Rightarrow> string \<Rightarrow> int \<Rightarrow> ApiResponse" where
  "createUnauthorizedResponse message traceId nanoid now =
     (let message = defaulted message ''Unauthorized''
      in createErrorResponse
           (Inr \<lparr> ae_code = ''UNAUTHORIZED'', ae_message = message, ae_details = None, ae_field = None,
                   ae_traceId = str_or traceId nanoid \<rparr>)
           (Some message) traceId nanoid now)"

definition createForbiddenResponse :: "string option \<Rightarrow> string option \<Rightarrow> string \<Rightarrow> int \<Rightarrow> ApiResponse" where
  "createForbiddenResponse message traceId nanoid now =
     (let message = defaulted message ''Forbidden''
      in createErrorResponse
           (Inr \<lparr> ae_code = ''FORBIDDEN'', ae_message = message, ae_details = None, ae_field = None,
                   ae_traceId = str_or traceId nanoid \<rparr>)
           (Some message) traceId nanoid now)"

definition createConflictResponse :: "string option \<Rightarrow> string option \<Rightarrow> string \<Rightarrow> int \<Rightarrow> ApiResponse" where
  "createConflictResponse message traceId nanoid now =
     (let message = defaulted message ''Resource conflict''
      in createErrorResponse
           (Inr \<lparr> ae_code = ''CONFLICT'', ae_message = message, ae_details = None, ae_field = None,
                   ae_traceId = str_or traceId nanoid \<rparr>)
           (Some message) traceId nanoid now)"

definition createRateLimitResponse :: "string option \<Rightarrow> int option \<Rightarrow> string option \<Rightarrow> string \<Rightarrow> int \<Rightarrow> ApiResponse" where
  "createRateLimitResponse message retryAfter traceId nanoid now =
     (let message = defaulted message ''Rate limit exceeded''
      in createErrorResponse
           (Inr \<lparr> ae_code = ''RATE_LIMIT_EXCEEDED'', ae_message = message,
                   ae_details = (case retryAfter of
                                   None \<Rightarrow> None
                                 | Some n \<Rightarrow> if truthy_num n then Some (RetryAfterDetails n) else None),
                   ae_field = None,
                   ae_traceId = str_or traceId nanoid \<rparr>)
           (Some message) traceId nanoid now)"

text \<open>The descriptor \<^verbatim>\<open>createServerErrorResponse\<close> builds, and the function itself.\<close>

definition serverErrorDescriptor :: "string \<Rightarrow> string option \<Rightarrow> string \<Rightarrow> ApiError" where
  "serverErrorDescriptor message traceId nanoid =
     \<lparr> ae_code = ''INTERNAL_SERVER_ERROR'', ae_message = message, ae_details = None, ae_field = None,
       ae_traceId = str_or traceId nanoid \<rparr>"

definition createServerErrorResponse :: "string option \<Rightarrow> string option \<Rightarrow> string \<Rightarrow> int \<Rightarrow> ApiResponse" where
  "createServerErrorResponse message traceId nanoid now =
     (let message = defaulted message ''Internal server error''
      in createErrorResponse (Inr (serverErrorDescriptor message traceId nanoid))
           (Some message) traceId nanoid now)"

section \<open>Error handling (errors/handlers.ts)\<close>

text \<open>
  What a \<^verbatim>\<open>catch\<close> can receive: an error of the taxonomy, a plain \<^verbatim>\<open>Error\<close> (with its
  message), or any other value (a string is \<^term>\<open>VStr\<close>).
\<close>

datatype thrown = ThrownBaseError BaseError | ThrownError string | ThrownValue jsval

text \<open>\<^verbatim>\<open>transformToBaseError(error, context?)\<close>\<close>

fun transformToBaseError :: "thrown \<Rightarrow> ErrorContext option \<Rightarrow> string \<Rightarrow> int \<Rightarrow> BaseError" where
  "transformToBaseError (ThrownBaseError e) ctx nanoid now = e"
| "transformToBaseError (ThrownError m) ctx nanoid now = new_InternalServerError (Some m) ctx nanoid now"
| "transformToBaseError (ThrownValue (VStr s)) ctx nanoid now = new_InternalServerError (Some s) ctx nanoid now"
| "transformToBaseError (ThrownValue v) ctx nanoid now =
     new_InternalServerError (Some ''An unknown error occurred'') ctx nanoid now"

text \<open>\<^verbatim>\<open>shouldExposeMessage(error)\<close>\<close>

definition shouldExposeMessage :: "BaseError \<Rightarrow> bool" where
  "shouldExposeMessage error = (be_statusCode error \<ge> 400 \<and> be_statusCode error < 500)"

text \<open>
  \<^verbatim>\<open>errorToResponse(error)\<close>: six \<^verbatim>\<open>instanceof\<close> branches in this order, then the default.
\<close>

definition errorToResponse :: "BaseError \<Rightarrow> string \<Rightarrow> int \<Rightarrow> ApiResponse" where
  "errorToResponse error nanoid now =
     (let traceId = Some (be_traceId error)
      in case be_class error of
           ValidationError issues \<Rightarrow> createValidationErrorResponse issues traceId nanoid now
         | DomainValidationError issues entityType \<Rightarrow> createValidationErrorResponse issues traceId nanoid now
         | NotFoundError resource identifier \<Rightarrow> createNotFoundResponse resource identifier traceId nanoid now
         | UnauthorizedError \<Rightarrow> createUnauthorizedResponse (Some (be_message error)) traceId nanoid now
         | ForbiddenError \<Rightarrow> createForbiddenResponse (Some (be_message error)) traceId nanoid now
         | ConflictError conflictType conflictingValue \<Rightarrow>
             createConflictResponse (Some (be_message error)) traceId nanoid now
         | RateLimitError retryAfter \<Rightarrow>
             createRateLimitResponse (Some (be_message error)) retryAfter traceId nanoid now
         | _ \<Rightarrow>
             (let message = (if shouldExposeMessage error then be_message error else ''Internal server error'')
              in createServerErrorResponse (Some message) traceId nanoid now))"

text \<open>The classes \<^verbatim>\<open>errorToResponse\<close> has a branch of their own for.\<close>

fun has_dedicated_branch :: "ErrorClass \<Rightarrow> bool" where
  "has_dedicated_branch (ValidationError issues) = True"
| "has_dedicated_branch (DomainValidationError issues entityType) = True"
| "has_dedicated_branch (NotFoundError resource identifier) = True"
| "has_dedicated_branch UnauthorizedError = True"
| "has_dedicated_branch ForbiddenError = True"
| "has_dedicated_branch (ConflictError conflictType conflictingValue) = True"
| "has_dedicated_branch (RateLimitError retryAfter) = True"
| "has_dedicated_branch c = False"

text \<open>\<^verbatim>\<open>getSeverityLevel(severity)\<close>\<close>

fun getSeverityLevel :: "Severity \<Rightarrow> string" where
  "getSeverityLevel Low = ''warn''"
| "getSeverityLevel Medium = ''error''"
| "getSeverityLevel High = ''error''"
| "getSeverityLevel Critical = ''fatal''"

text \<open>
  \<^verbatim>\<open>logError(error, context?)\<close>: it builds a record of the error's name, code, message,
  status code and trace id and of the context, and writes
  \<^verbatim>\<open>console.error(JSON.stringify(logData))\<close>. The error's own parts are strings and a
  number; the context is serialised whole, its \<^verbatim>\<open>metadata\<close> included, so \<^verbatim>\<open>JSON.stringify\<close>
  throws when that holds a \<^verbatim>\<open>BigInt\<close> or a circular structure, and \<^verbatim>\<open>logError\<close> rejects
  with that \<^verbatim>\<open>TypeError\<close>, having written nothing. Otherwise the result is the record
  written.
\<close>

record ErrorLog =
  log_timestamp :: int
  log_level :: string
  log_name :: string
  log_code :: string
  log_message :: string
  log_statusCode :: int
  log_traceId :: string
  log_context :: "ErrorContext option"

definition logError :: "BaseError \<Rightarrow> ErrorContext option \<Rightarrow> int \<Rightarrow> stringify_error + ErrorLog" where
  "logError error ctx now =
     (let logData =
            \<lparr> log_timestamp = now,
              log_level = getSeverityLevel (getSeverity (be_class error)),
              log_name = class_name (be_class error),
              log_code = be_code error,
              log_message = be_message error,
              log_statusCode = be_statusCode error,
              log_traceId = be_traceId error,
              log_context = ctx \<rparr>
      in case context_failure ctx of Some t \<Rightarrow> Inl t | None \<Rightarrow> Inr logData)"

text \<open>
  What one call of \<^verbatim>\<open>handleError\<close> reads from its environment: the results of the
  \<^verbatim>\<open>nanoid()\<close> and \<^verbatim>\<open>new Date()\<close> calls it may make, in the order of the pipeline.
\<close>

record HandlerEnv =
  id_for_error :: string
  time_of_error :: int
  time_of_log :: int
  id_for_response :: string
  time_of_response :: int

text \<open>
  \<^verbatim>\<open>handleError(error, context?)\<close>: \<^verbatim>\<open>transformToBaseError\<close>, then \<^verbatim>\<open>await logError\<close>, then
  \<^verbatim>\<open>errorToResponse\<close>. When \<^verbatim>\<open>logError\<close> rejects, so does \<^verbatim>\<open>handleError\<close>, and there is no
  response; otherwise the result is the record logged and the response returned.
\<close>

definition handleError :: "thrown \<Rightarrow> ErrorContext option \<Rightarrow> HandlerEnv \<Rightarrow> stringify_error + ErrorLog \<times> ApiResponse" where
  "handleError error ctx env =
     (let processedError = transformToBaseError error ctx (id_for_error env) (time_of_error env)
      in case logError processedError ctx (time_of_log env) of
           Inl t \<Rightarrow> Inl t
         | Inr logged \<Rightarrow>
             Inr (logged, errorToResponse processedError (id_for_response env) (time_of_response env)))"

text \<open>The response a call of \<^verbatim>\<open>handleError\<close> returned, and the record it logged, if any.\<close>

definition response_of :: "stringify_error + ErrorLog \<times> ApiResponse \<Rightarrow> ApiResponse option" where
  "response_of r = (case r of Inl t \<Rightarrow> None | Inr lr \<Rightarrow> Some (snd lr))"

definition logged_by :: "stringify_error + ErrorLog \<times> ApiResponse \<Rightarrow> ErrorLog option" where
  "logged_by r = (case r of Inl t \<Rightarrow> None | Inr lr \<Rightarrow> Some (fst lr))"

text \<open>
  Every string an \<^verbatim>\<open>ApiResponse\<close> carries; and, for the worked examples, an environment,
  a failure, and two contexts: one that serialises and one whose metadata holds a
  \<^verbatim>\<open>BigInt\<close> (\<^verbatim>\<open>{ traceId: 'trace-9', metadata: { attempt: 1, size: 10n } }\<close>).
\<close>

definition response_texts :: "ApiResponse \<Rightarrow> string list" where
  "response_texts r =
     (case ar_error r of None \<Rightarrow> [] | Some s \<Rightarrow> [s])
     @ (case ar_message r of None \<Rightarrow> [] | Some s \<Rightarrow> [s])
     @ [ar_traceId r]"

definition example_env :: HandlerEnv where
  "example_env = \<lparr> id_for_error = ''trace-1'', time_of_error = 10, time_of_log = 11,
                   id_for_response = ''trace-2'', time_of_response = 12 \<rparr>"

definition version_conflict :: BaseError where
  "version_conflict = new_ConcurrencyError ''stale version'' 3 4 None ''trace-0'' 9"

definition plain_context :: ErrorContext where
  "plain_context = \<lparr> ec_traceId = ''trace-9'', ec_operation = Some ''create'', ec_entityType = None,
                     ec_entityId = None, ec_userId = None, ec_tenantId = None,
                     ec_metadata = Some [(''attempt'', JValue (VNum 1))] \<rparr>"

definition bigint_context :: ErrorContext where
  "bigint_context = plain_context\<lparr> ec_metadata := Some [(''attempt'', JValue (VNum 1)), (''size'', JBigInt 10)] \<rparr>"

text \<open>Whether a caught value is an error of the taxonomy (\<^verbatim>\<open>error instanceof BaseError\<close>).\<close>

fun is_taxonomy :: "thrown \<Rightarrow> bool" where
  "is_taxonomy (ThrownBaseError e) = True"
| "is_taxonomy (ThrownError m) = False"
| "is_taxonomy (ThrownValue v) = False"

section \<open>Properties of rounding\<close>

text \<open>
  Rounding moves a number by at most half a unit in the last place; every integer up to
  \<open>2^53\<close> in magnitude is a double, and \<open>2^53 + 1\<close> is the first that is not.
\<close>

lemma round_half_even_error: "\<bar>of_int (round_half_even y) - y\<bar> \<le> 1 / 2"
  unfolding round_half_even_def by (auto; linarith)

lemma round_half_even_of_int [simp]: "round_half_even (of_int n) = n"
  by (simp add: round_half_even_def)

lemma two_powr_int: "(2::real) powr real_of_int k = 2 powi k"
  by (simp add: powr_real_of_int')

lemma two_powi_pos [simp]: "0 < (2::real) powi k"
  by (simp add: power_int_def)

lemma binade_iff:
  assumes "x \<noteq> 0"
  shows "binade x = e \<longleftrightarrow> 2 powi e \<le> \<bar>x\<bar> \<and> \<bar>x\<bar> < 2 powi (e + 1)"
proof -
  have pos: "0 < \<bar>x\<bar>" using assms by simp
  have "binade x = e \<longleftrightarrow> 2 powr real_of_int e \<le> \<bar>x\<bar> \<and> \<bar>x\<bar> < 2 powr real_of_int (e + 1)"
    unfolding binade_def by (rule floor_log_eq_powr_iff [OF pos]) simp
  then show ?thesis by (simp only: two_powr_int)
qed

lemma binade_eqI:
  assumes "2 powi e \<le> \<bar>x\<bar>" and "\<bar>x\<bar> < 2 powi (e + 1)"
  shows "binade x = e"
proof -
  have "0 < \<bar>x\<bar>" using assms(1) two_powi_pos [of e] by linarith
  then have "x \<noteq> 0" by simp
  from binade_iff [OF this, of e] assms show ?thesis by simp
qed

lemma binade_bounds:
  assumes "x \<noteq> 0"
  shows "2 powi (binade x) \<le> \<bar>x\<bar>" and "\<bar>x\<bar> < 2 powi (binade x + 1)"
  using binade_iff [OF assms, of "binade x"] by simp_all

lemma round53_error:
  assumes "x \<noteq> 0"
  shows "\<bar>round53 x - x\<bar> \<le> 2 powi (binade x - 52) / 2"
proof -
  let ?u = "(2::real) powi (binade x - 52)"
  have u: "0 < ?u" by simp
  have "round53 x - x = (of_int (round_half_even (x / ?u)) - x / ?u) * ?u"
    using assms u by (simp add: round53_def algebra_simps)
  then have "\<bar>round53 x - x\<bar> = \<bar>of_int (round_half_even (x / ?u)) - x / ?u\<bar> * ?u"
    using u by (simp add: abs_mult)
  also have "\<dots> \<le> (1 / 2) * ?u"
    using round_half_even_error [of "x / ?u"] u by (intro mult_right_mono) simp_all
  finally show ?thesis by simp
qed

lemma round53_rel_error:
  assumes "x \<noteq> 0"
  shows "\<bar>round53 x - x\<bar> \<le> \<bar>x\<bar> / 2 ^ 53"
proof -
  have "2 powi (binade x - 52) = 2 powi (binade x) / (2::real) ^ 52"
    by (simp add: power_int_diff)
  then have "2 powi (binade x - 52) / 2 = 2 powi (binade x) / (2::real) ^ 53"
    by simp
  also have "\<dots> \<le> \<bar>x\<bar> / 2 ^ 53"
    using binade_bounds(1) [OF assms] by (simp add: divide_right_mono)
  finally show ?thesis using round53_error [OF assms] by linarith
qed

lemma two_powi_less_53: "(2::real) powi e < 2 powi 53 \<Longrightarrow> e \<le> 52"
  using power_int_le_imp_less_exp [of "2::real" e 53] by simp

lemma round53_int_small:
  assumes "\<bar>n\<bar> < 2 ^ 53"
  shows "round53 (of_int n) = of_int n"
proof (cases "n = 0")
  case True
  then show ?thesis by (simp add: round53_def)
next
  case False
  let ?x = "real_of_int n"
  have x0: "?x \<noteq> 0" using False by simp
  have "2 powi (binade ?x) \<le> \<bar>?x\<bar>" by (rule binade_bounds(1) [OF x0])
  also have "\<bar>?x\<bar> < 2 ^ 53" using assms by (metis of_int_abs of_int_less_iff of_int_numeral of_int_power)
  finally have "(2::real) powi (binade ?x) < 2 powi 53" by simp
  then have le: "binade ?x \<le> 52"
    by (rule two_powi_less_53)
  define k where "k = nat (52 - binade ?x)"
  have kk: "binade ?x - 52 = - int k" using le by (simp add: k_def)
  have "?x / 2 powi (binade ?x - 52) = of_int (n * 2 ^ k)"
    unfolding kk by (simp add: power_int_minus field_simps)
  then have "round_half_even (?x / 2 powi (binade ?x - 52)) = n * 2 ^ k"
    by (simp only: round_half_even_of_int)
  then show ?thesis
    using x0 unfolding round53_def kk by (simp add: power_int_minus field_simps)
qed

lemma round53_int:
  assumes "\<bar>n\<bar> \<le> 2 ^ 53"
  shows "round53 (of_int n) = of_int n"
proof (cases "\<bar>n\<bar> < 2 ^ 53")
  case True
  then show ?thesis by (rule round53_int_small)
next
  case False
  with assms have "\<bar>n\<bar> = 2 ^ 53" by simp
  then have n: "n = 2 ^ 53 \<or> n = - (2 ^ 53)" by linarith
  have b: "binade (real_of_int n) = 53"
    using n by (intro binade_eqI) auto
  show ?thesis
    using n unfolding round53_def b by (auto simp: round_half_even_def)
qed

lemma round53_eval:
  assumes "2 powi e \<le> \<bar>x\<bar>" and "\<bar>x\<bar> < 2 powi (e + 1)"
  shows "round53 x = of_int (round_half_even (x / 2 powi (e - 52))) * 2 powi (e - 52)"
proof -
  have "0 < \<bar>x\<bar>" using assms(1) two_powi_pos [of e] by linarith
  then have "x \<noteq> 0" by simp
  then show ?thesis
    unfolding round53_def binade_eqI [OF assms] by simp
qed

lemma nearest_int_exact: "\<bar>n\<bar> \<le> 2 ^ 53 \<Longrightarrow> nearest_int n = n"
  by (simp add: nearest_int_def round53_int)

lemma nearest_int_absorbed: "nearest_int (2 ^ 53 + 1) = 2 ^ 53"
proof -
  have "round53 (real_of_int (2 ^ 53 + 1)) = 2 ^ 53"
    by (subst round53_eval [where e = 53]) (simp_all add: round_half_even_def)
  then show ?thesis by (simp add: nearest_int_def)
qed

lemma nearest_int_product: "nearest_int (94906267 * 94906267) = 9007199515875288"
proof -
  have "round53 (real_of_int (94906267 * 94906267)) = 9007199515875288"
    by (subst round53_eval [where e = 53]) (simp_all add: round_half_even_def)
  then show ?thesis by (simp add: nearest_int_def)
qed

lemma ceil_one_short: "\<lceil>round53 (real_of_int 13510798882111492 / real_of_int 3)\<rceil> = 4503599627370497"
  by (subst round53_eval [where e = 52]) (simp_all add: round_half_even_def)

lemma ceil_exact_val: "\<lceil>real_of_int 13510798882111492 / real_of_int 3\<rceil> = (4503599627370498::int)"
  by (simp add: ceiling_eq_iff)

lemma ceiling_round53_div:
  assumes T: "0 \<le> T" "T < 2 ^ 53" and L: "1 \<le> L"
  shows "\<lceil>round53 (real_of_int T / real_of_int L)\<rceil> = \<lceil>real_of_int T / real_of_int L\<rceil>"
proof (cases "T = 0")
  case True
  then show ?thesis by (simp add: round53_def)
next
  case False
  let ?q = "real_of_int T / real_of_int L"
  define c where "c = \<lceil>?q\<rceil>"
  have Lpos: "0 < real_of_int L" using L by simp
  have qpos: "0 < ?q" using False T(1) Lpos by simp
  have q0: "?q \<noteq> 0" using qpos by linarith
  have cq: "real_of_int c - 1 < ?q" "?q \<le> real_of_int c"
    unfolding c_def by linarith+
  have "\<lceil>round53 ?q\<rceil> = c"
  proof (cases "?q = real_of_int c")
    case True
    have cpos: "0 < c" using qpos True by simp
    have "real_of_int T = real_of_int (c * L)"
      using True Lpos by (simp add: field_simps)
    then have TcL: "T = c * L" by (simp only: of_int_eq_iff)
    have "c * 1 \<le> c * L" using L cpos by (intro mult_left_mono) simp_all
    then have "c \<le> T" using TcL by simp
    then have "\<bar>c\<bar> < 2 ^ 53" using T(2) cpos by simp
    then have "round53 (real_of_int c) = real_of_int c" by (rule round53_int_small)
    then show ?thesis unfolding True by simp
  next
    case neq: False
    have "real_of_int ((c - 1) * L) < real_of_int T"
      using cq(1) Lpos by (simp add: field_simps)
    then have "(c - 1) * L < T" by (simp only: of_int_less_iff)
    then have "(c - 1) * L + 1 \<le> T" by simp
    then have "real_of_int ((c - 1) * L + 1) \<le> real_of_int T" by (simp only: of_int_le_iff)
    then have "real_of_int ((c - 1) * L + 1) / real_of_int L \<le> ?q"
      using Lpos by (simp only: divide_right_mono less_imp_le)
    moreover have "real_of_int ((c - 1) * L + 1) / real_of_int L = real_of_int c - 1 + 1 / real_of_int L"
      using Lpos by (simp add: add_divide_distrib)
    ultimately have lo: "real_of_int c - 1 + 1 / real_of_int L \<le> ?q"
      by simp
    have "?q < real_of_int c" using cq(2) neq by simp
    then have "real_of_int T < real_of_int (c * L)"
      using Lpos by (simp add: field_simps)
    then have "T < c * L" by (simp only: of_int_less_iff)
    then have "T + 1 \<le> c * L" by simp
    then have "real_of_int (T + 1) \<le> real_of_int (c * L)" by (simp only: of_int_le_iff)
    then have "real_of_int (T + 1) / real_of_int L \<le> real_of_int (c * L) / real_of_int L"
      using Lpos by (simp only: divide_right_mono less_imp_le)
    moreover have "real_of_int (T + 1) / real_of_int L = ?q + 1 / real_of_int L"
      by (simp add: add_divide_distrib)
    moreover have "real_of_int (c * L) / real_of_int L = real_of_int c"
      using Lpos by simp
    ultimately have hi: "?q + 1 / real_of_int L \<le> real_of_int c"
      by simp
    have "real_of_int T < 2 ^ 53" using T(2) by (metis of_int_less_iff of_int_numeral of_int_power)
    then have "real_of_int T / 2 ^ 53 < 1" by simp
    then have "real_of_int T / 2 ^ 53 / real_of_int L < 1 / real_of_int L"
      using Lpos by (rule divide_strict_right_mono)
    moreover have "?q / 2 ^ 53 = real_of_int T / 2 ^ 53 / real_of_int L"
      by (simp add: mult.commute)
    ultimately have small: "?q / 2 ^ 53 < 1 / real_of_int L" by (simp only:)
    have "\<bar>round53 ?q - ?q\<bar> \<le> \<bar>?q\<bar> / 2 ^ 53" by (rule round53_rel_error [OF q0])
    then have err: "\<bar>round53 ?q - ?q\<bar> < 1 / real_of_int L"
      using small qpos by simp
    have "real_of_int c - 1 < round53 ?q" using err lo by linarith
    moreover have "round53 ?q \<le> real_of_int c" using err hi by linarith
    ultimately show ?thesis by (rule ceiling_unique)
  qed
  then show ?thesis by (simp add: c_def)
qed

lemma nearest_int_absorbed_numeral: "nearest_int 9007199254740993 = 9007199254740992"
  using nearest_int_absorbed by simp

lemma js_number_exact:
  assumes "\<bar>n\<bar> \<le> 2 ^ 53"
  shows "js_number n = Fin n"
proof -
  have "(2::int) ^ 53 < 2 ^ 1024" by simp
  with assms have "\<not> 2 ^ 1024 \<le> n" and "\<not> n \<le> - (2 ^ 1024)" by linarith+
  then show ?thesis
    unfolding js_number_def nearest_int_exact [OF assms] by simp
qed

section \<open>Properties of pagination\<close>

lemma less_ceiling_div_iff:
  fixes P T L :: int
  assumes "1 \<le> L"
  shows "P < \<lceil>real_of_int T / real_of_int L\<rceil> \<longleftrightarrow> P * L < T"
proof -
  have pos: "0 < real_of_int L" using assms by simp
  have "P < \<lceil>real_of_int T / real_of_int L\<rceil> \<longleftrightarrow> real_of_int P < real_of_int T / real_of_int L"
    by (rule less_ceiling_iff)
  also have "\<dots> \<longleftrightarrow> real_of_int P * real_of_int L < real_of_int T"
    using pos by (simp add: pos_less_divide_eq)
  also have "\<dots> \<longleftrightarrow> real_of_int (P * L) < real_of_int T"
    by simp
  also have "\<dots> \<longleftrightarrow> P * L < T"
    by (rule of_int_less_iff)
  finally show ?thesis .
qed

lemma calculateOffset_exact:
  assumes "\<bar>P - 1\<bar> \<le> 2 ^ 53" and "\<bar>(P - 1) * L\<bar> \<le> 2 ^ 53"
  shows "calculateOffset P L = Fin ((P - 1) * L)"
  unfolding calculateOffset_def nearest_int_exact [OF assms(1)] by (rule js_number_exact [OF assms(2)])

lemma ceil_div_exact:
  assumes "0 \<le> T" and "T < 2 ^ 53" and "1 \<le> L"
  shows "ceil_div T L = Fin \<lceil>real_of_int T / real_of_int L\<rceil>"
  using assms ceiling_round53_div [OF assms] by (simp add: ceil_div_def)

lemma page_in_range_offset:
  assumes "0 \<le> T" and "T < 2 ^ 53" and "1 \<le> L"
    and "1 \<le> P" and "P \<le> \<lceil>real_of_int T / real_of_int L\<rceil>"
  shows "\<bar>P - 1\<bar> \<le> 2 ^ 53" and "\<bar>(P - 1) * L\<bar> \<le> 2 ^ 53"
proof -
  have "P - 1 < \<lceil>real_of_int T / real_of_int L\<rceil>" using assms(5) by simp
  then have lt: "(P - 1) * L < T" by (simp only: less_ceiling_div_iff [OF assms(3)])
  have nn: "0 \<le> P - 1" using assms(4) by simp
  then have nn': "0 \<le> (P - 1) * L" using assms(3) by simp
  have "(P - 1) * 1 \<le> (P - 1) * L" using nn assms(3) by (intro mult_left_mono) simp_all
  then have "P - 1 < T" using lt by simp
  then show "\<bar>P - 1\<bar> \<le> 2 ^ 53" using nn assms(2) by simp
  show "\<bar>(P - 1) * L\<bar> \<le> 2 ^ 53" using nn' lt assms(2) by simp
qed

text \<open>
  C4, as stated, fails: the helpers compute on doubles, and beyond \<open>2^53\<close> the results
  are rounded. \<^verbatim>\<open>calculateOffset(94906268, 94906267)\<close> is \<open>9007199515875288\<close>, one below
  \<open>(P - 1) * L = 94906267^2\<close>; and for \<open>T = 3 * 2^52 + 4\<close>, \<open>L = 3\<close> the quotient
  \<open>2^52 + 4/3\<close> rounds down to \<open>2^52 + 1\<close>, so \<^verbatim>\<open>Math.ceil(T / L)\<close> is one short of
  \<open>ceil (T / L)\<close>, and on page \<open>P = 2^52 + 1\<close> (\<open>1 \<le> P \<le> ceil (T / L)\<close>) \<open>hasNext\<close> is
  false although \<open>P * L < T\<close>.
\<close>

theorem offset_pagination_rounded_beyond_2_53:
  "calculateOffset 94906268 94906267 = Fin 9007199515875288
 \<and> pm_offset (getPaginationMeta 94906268 94906267 0) = Fin 9007199515875288
 \<and> (94906268 - 1) * 94906267 = (9007199515875289::int)
 \<and> calculateTotalPages 13510798882111492 3 = Fin 4503599627370497
 \<and> pm_totalPages (getPaginationMeta 4503599627370497 3 13510798882111492) = Fin 4503599627370497
 \<and> \<lceil>real_of_int 13510798882111492 / real_of_int 3\<rceil> = (4503599627370498::int)
 \<and> pm_hasNext (getPaginationMeta 4503599627370497 3 13510798882111492) = False
 \<and> 4503599627370497 * 3 < (13510798882111492::int)"
proof -
  have p: "nearest_int 9007199515875289 = 9007199515875288"
    using nearest_int_product by simp
  have "(2::int) ^ 53 < 2 ^ 1024" by simp
  then have big: "\<not> (2::int) ^ 1024 \<le> 9007199515875288" "\<not> (9007199515875288::int) \<le> - (2 ^ 1024)"
    by simp_all
  have off: "calculateOffset 94906268 94906267 = Fin 9007199515875288"
    unfolding calculateOffset_def js_number_def
    using big by (simp add: nearest_int_exact p)
  have pages: "calculateTotalPages 13510798882111492 3 = Fin 4503599627370497"
    using ceil_one_short by (simp add: calculateTotalPages_def ceil_div_def)
  show ?thesis
    using off pages ceil_exact_val
    by (simp add: getPaginationMeta_def Let_def)
qed

text \<open>
  C4, amended. For every integer total \<open>0 \<le> T < 2^53\<close> and every integer limit
  \<open>L \<ge> 1\<close>, \<^verbatim>\<open>getPaginationMeta\<close> reports \<open>totalPages = ceil (T / L)\<close>,
  \<open>hasNext = (P < totalPages)\<close> and \<open>hasPrev = (P > 1)\<close>; it reports
  \<open>offset = (P - 1) * L\<close> for every page \<open>P\<close> with \<open>P - 1\<close> and \<open>(P - 1) * L\<close> within
  \<open>2^53\<close> in magnitude; and for every page \<open>P\<close> with \<open>1 \<le> P \<le> ceil (T / L)\<close>, the offset
  is \<open>(P - 1) * L\<close> and \<open>hasNext\<close> holds exactly when \<open>P * L < T\<close>.
\<close>

theorem offset_pagination_formulae:
  assumes "0 \<le> T" and "T < 2 ^ 53" and "1 \<le> L"
  shows "(\<bar>P - 1\<bar> \<le> 2 ^ 53 \<and> \<bar>(P - 1) * L\<bar> \<le> 2 ^ 53 \<longrightarrow>
            calculateOffset P L = Fin ((P - 1) * L)
          \<and> pm_offset (getPaginationMeta P L T) = Fin ((P - 1) * L))
       \<and> calculateTotalPages T L = Fin \<lceil>real_of_int T / real_of_int L\<rceil>
       \<and> pm_totalPages (getPaginationMeta P L T) = Fin \<lceil>real_of_int T / real_of_int L\<rceil>
       \<and> pm_hasNext (getPaginationMeta P L T) = (P < \<lceil>real_of_int T / real_of_int L\<rceil>)
       \<and> pm_hasPrev (getPaginationMeta P L T) = (P > 1)
       \<and> (1 \<le> P \<and> P \<le> \<lceil>real_of_int T / real_of_int L\<rceil> \<longrightarrow>
            pm_offset (getPaginationMeta P L T) = Fin ((P - 1) * L)
          \<and> pm_hasNext (getPaginationMeta P L T) = (P * L < T))"
proof -
  note pages = ceil_div_exact [OF assms]
  have off: "calculateOffset P L = Fin ((P - 1) * L) \<and> pm_offset (getPaginationMeta P L T) = Fin ((P - 1) * L)"
    if "\<bar>P - 1\<bar> \<le> 2 ^ 53" and "\<bar>(P - 1) * L\<bar> \<le> 2 ^ 53"
    using calculateOffset_exact [OF that] by (simp add: getPaginationMeta_def Let_def)
  have tp: "calculateTotalPages T L = Fin \<lceil>real_of_int T / real_of_int L\<rceil>"
    by (simp add: calculateTotalPages_def pages)
  have mtp: "pm_totalPages (getPaginationMeta P L T) = Fin \<lceil>real_of_int T / real_of_int L\<rceil>"
    by (simp add: getPaginationMeta_def Let_def tp)
  have nxt: "pm_hasNext (getPaginationMeta P L T) = (P < \<lceil>real_of_int T / real_of_int L\<rceil>)"
    by (simp add: getPaginationMeta_def Let_def tp)
  have prv: "pm_hasPrev (getPaginationMeta P L T) = (P > 1)"
    by (simp add: getPaginationMeta_def Let_def)
  have inr: "pm_offset (getPaginationMeta P L T) = Fin ((P - 1) * L)
           \<and> pm_hasNext (getPaginationMeta P L T) = (P * L < T)"
    if "1 \<le> P" and "P \<le> \<lceil>real_of_int T / real_of_int L\<rceil>"
    using off [OF page_in_range_offset [OF assms that]] nxt less_ceiling_div_iff [OF assms(3), of P T]
    by simp
  from off tp mtp nxt prv inr show ?thesis by blast
qed

theorem offset_pagination_formulae_witness:
  "(0::int) \<le> 25 \<and> (25::int) < 2 ^ 53 \<and> (1::int) \<le> 10
   \<and> \<bar>3 - 1\<bar> \<le> (2::int) ^ 53 \<and> \<bar>(3 - 1) * 10\<bar> \<le> (2::int) ^ 53
   \<and> (1::int) \<le> 3 \<and> 3 \<le> \<lceil>real_of_int 25 / real_of_int 10\<rceil>
   \<and> calculateOffset 3 10 = Fin 20
   \<and> pm_offset (getPaginationMeta 3 10 25) = Fin 20
   \<and> pm_totalPages (getPaginationMeta 3 10 25) = Fin 3
   \<and> pm_hasNext (getPaginationMeta 1 10 25) = True
   \<and> pm_hasPrev (getPaginationMeta 1 10 25) = False
   \<and> pm_hasNext (getPaginationMeta 3 10 25) = False
   \<and> pm_hasPrev (getPaginationMeta 3 10 25) = True"
proof -
  have c: "\<lceil>real_of_int 25 / real_of_int 10\<rceil> = (3::int)"
    by (simp add: ceiling_eq_iff)
  have h0: "(0::int) \<le> 25" and h1: "(25::int) < 2 ^ 53" and h2: "(1::int) \<le> 10" by simp_all
  show ?thesis
    using offset_pagination_formulae [OF h0 h1 h2, of 3] offset_pagination_formulae [OF h0 h1 h2, of 1] c
    by simp
qed


lemma butlast_Suc_length:
  assumes "length xs = Suc n" and "0 < n"
  shows "butlast xs = take n xs \<and> butlast xs \<noteq> [] \<and> last (butlast xs) = xs ! (n - 1)"
proof -
  have b: "butlast xs = take n xs"
    using assms by (simp add: butlast_conv_take)
  have len: "length (butlast xs) = n"
    using assms by simp
  have ne: "butlast xs \<noteq> []"
  proof
    assume "butlast xs = []"
    then have "length (butlast xs) = 0" by simp
    with len assms(2) show False by simp
  qed
  have "last (butlast xs) = butlast xs ! (n - 1)"
    using ne len by (simp add: last_conv_nth)
  also have "\<dots> = xs ! (n - 1)"
    using assms by (simp add: nth_butlast)
  finally show ?thesis using b ne by simp
qed

text \<open>
  C5. \<^verbatim>\<open>createCursorPagination\<close> for a limit \<open>L \<ge> 1\<close>: when exactly \<open>L + 1\<close> items are
  supplied it returns the first \<open>L\<close> of them and \<open>nextCursor\<close> is the cursor function applied
  to the last retained item (item \<open>L - 1\<close> of the input); when at most \<open>L\<close> items are
  supplied it returns them all and no \<open>nextCursor\<close>; \<open>hasPrev\<close> is always \<open>false\<close>.
\<close>

theorem cursor_pagination_overfetch:
  assumes "1 \<le> L"
  shows "(int (length xs) = L + 1 \<longrightarrow>
            cp_data (createCursorPagination xs getCursor L) = take (nat L) xs
          \<and> length (cp_data (createCursorPagination xs getCursor L)) = nat L
          \<and> cp_nextCursor (createCursorPagination xs getCursor L)
              = Some (getCursor (last (cp_data (createCursorPagination xs getCursor L))))
          \<and> last (cp_data (createCursorPagination xs getCursor L)) = xs ! (nat L - 1))
       \<and> (int (length xs) \<le> L \<longrightarrow>
            cp_data (createCursorPagination xs getCursor L) = xs
          \<and> cp_nextCursor (createCursorPagination xs getCursor L) = None)
       \<and> cp_hasPrev (createCursorPagination xs getCursor L) = False"
proof -
  have more: "cp_data (createCursorPagination xs getCursor L) = take (nat L) xs
          \<and> length (cp_data (createCursorPagination xs getCursor L)) = nat L
          \<and> cp_nextCursor (createCursorPagination xs getCursor L)
              = Some (getCursor (last (cp_data (createCursorPagination xs getCursor L))))
          \<and> last (cp_data (createCursorPagination xs getCursor L)) = xs ! (nat L - 1)"
    if eq: "int (length xs) = L + 1"
  proof -
    have len: "length xs = Suc (nat L)" using eq assms by linarith
    have pos: "0 < nat L" using assms by simp
    have gt: "int (length xs) > L" using eq by simp
    note bl = butlast_Suc_length [OF len pos]
    have lb: "butlast xs \<noteq> []"
      using bl by blast
    have d: "cp_data (createCursorPagination xs getCursor L) = butlast xs"
      using gt by (simp add: createCursorPagination_def Let_def)
    have c: "cp_nextCursor (createCursorPagination xs getCursor L) = Some (getCursor (last (butlast xs)))"
      using gt lb by (simp add: createCursorPagination_def Let_def)
    have l: "length (butlast xs) = nat L"
      using len by simp
    show ?thesis
      unfolding d c by (intro conjI refl l) (use bl in blast)+
  qed
  have all: "cp_data (createCursorPagination xs getCursor L) = xs
          \<and> cp_nextCursor (createCursorPagination xs getCursor L) = None"
    if "int (length xs) \<le> L"
    using that by (simp add: createCursorPagination_def Let_def)
  have prev: "cp_hasPrev (createCursorPagination xs getCursor L) = False"
    by (simp add: createCursorPagination_def Let_def)
  from more all prev show ?thesis by blast
qed

theorem cursor_pagination_overfetch_witness:
  "(1::int) \<le> 10
   \<and> cp_data (createCursorPagination [0, 1, 2, 3, 4, 5, 6, 7, 8, 9, 10::nat] cursorOf 10)
       = [0, 1, 2, 3, 4, 5, 6, 7, 8, 9]
   \<and> cp_nextCursor (createCursorPagination [0, 1, 2, 3, 4, 5, 6, 7, 8, 9, 10::nat] cursorOf 10)
       = Some (cursorOf 9)
   \<and> cp_data (createCursorPagination [0, 1, 2, 3, 4::nat] cursorOf 10) = [0, 1, 2, 3, 4]
   \<and> cp_nextCursor (createCursorPagination [0, 1, 2, 3, 4::nat] cursorOf 10) = None"
proof -
  have h: "(1::int) \<le> 10" by simp
  show ?thesis
    using cursor_pagination_overfetch [OF h, of "[0, 1, 2, 3, 4, 5, 6, 7, 8, 9, 10::nat]" cursorOf]
          cursor_pagination_overfetch [OF h, of "[0, 1, 2, 3, 4::nat]" cursorOf]
    by simp
qed

text \<open>
  What \<^verbatim>\<open>validatePagination\<close> rejects, exactly: a present page below zero, or a present
  limit below zero or above 100. Zero passes every guard, because \<^verbatim>\<open>0 && ...\<close> is falsy.
\<close>

lemma validatePagination_throws_iff:
  "(\<exists>e. validatePagination opts = Inl e) \<longleftrightarrow>
     (\<exists>p. po_page opts = Some p \<and> p < 0) \<or> (\<exists>l. po_limit opts = Some l \<and> (l < 0 \<or> 100 < l))"
  by (auto simp: validatePagination_def truthy_num_def split: option.splits)

text \<open>
  C6. The claim is that \<^verbatim>\<open>validatePagination\<close> throws for every page below 1 and every
  limit below 1. The code's own messages say so (\<^verbatim>\<open>Page must be greater than 0\<close>,
  \<^verbatim>\<open>Limit must be greater than 0\<close>), yet page 0 and limit 0 are accepted: evaluation of
  the code at \<^verbatim>\<open>{page: 0, limit: 10}\<close> and at \<^verbatim>\<open>{page: 1, limit: 0}\<close>.
\<close>

theorem validatePagination_accepts_zero:
  "validatePagination \<lparr> po_page = Some 0, po_limit = Some 10, po_offset = None, po_cursor = None \<rparr> = Inr ()
   \<and> validatePagination \<lparr> po_page = Some 1, po_limit = Some 0, po_offset = None, po_cursor = None \<rparr> = Inr ()"
  by (simp add: validatePagination_def truthy_num_def)

section \<open>Properties of the entity\<close>

lemma Entity_new_metadata:
  "e_metadata (snd (Entity_new d nanoid nowC nowU s)) \<noteq> None"
  by (simp add: Entity_new_def Let_def split: option.splits prod.splits)

lemma markAsUpdated_version:
  assumes "- (2 ^ 53) \<le> e_version e" and "e_version e + 1 \<le> 2 ^ 53"
  shows "e_version (markAsUpdated u t e) = e_version e + 1"
proof -
  have "\<bar>e_version e + 1\<bar> \<le> 2 ^ 53" using assms by simp
  then show ?thesis by (simp add: markAsUpdated_def nearest_int_exact)
qed

lemma mutate_version:
  assumes "- (2 ^ 53) \<le> e_version e" and "e_version e + 1 \<le> 2 ^ 53"
    and "e_metadata e = None \<longrightarrow> \<not> is_removeMetadata m"
  shows "e_version (snd (mutate m (s, e))) = e_version e + 1"
proof (cases m)
  case (MarkAsUpdated u t)
  then show ?thesis using assms(1,2) by (simp add: markAsUpdated_version)
next
  case (SoftDelete u td tu)
  then show ?thesis using assms(1,2) by (simp add: softDelete_def markAsUpdated_version)
next
  case (Restore u t)
  then show ?thesis using assms(1,2) by (simp add: restore_def markAsUpdated_version)
next
  case (AddMetadata k v t)
  then show ?thesis
    using assms(1,2)
    by (simp add: addMetadata_def Let_def markAsUpdated_version split: option.splits prod.splits)
next
  case (RemoveMetadata k t)
  with assms(3) obtain a where "e_metadata e = Some a" by auto
  then show ?thesis
    using assms(1,2) RemoveMetadata by (simp add: removeMetadata_def markAsUpdated_version)
qed

lemma mutate_keeps_metadata:
  assumes "e_metadata e \<noteq> None"
  shows "e_metadata (snd (mutate m (s, e))) \<noteq> None"
proof -
  obtain a where a: "e_metadata e = Some a" using assms by auto
  show ?thesis
    by (cases m)
       (simp_all add: a markAsUpdated_def softDelete_def restore_def addMetadata_def
          removeMetadata_def Let_def)
qed

lemma removeMetadata_unset:
  assumes "e_metadata e = None"
  shows "mutate (RemoveMetadata k t) (s, e) = (s, e)"
  using assms by (simp add: removeMetadata_def)

lemma mutations_version:
  assumes "e_metadata (snd se) \<noteq> None"
    and "- (2 ^ 53) \<le> e_version (snd se)"
    and "e_version (snd se) + int (length ms) \<le> 2 ^ 53"
  shows "e_version (snd (mutations ms se)) = e_version (snd se) + int (length ms)"
  using assms
proof (induction ms arbitrary: se)
  case Nil
  then show ?case by simp
next
  case (Cons m ms)
  obtain s e where se: "se = (s, e)" by (cases se)
  have md: "e_metadata e \<noteq> None" and lo: "- (2 ^ 53) \<le> e_version e"
    and hi: "e_version e + 1 + int (length ms) \<le> 2 ^ 53"
    using Cons.prems by (simp_all add: se)
  have hi1: "e_version e + 1 \<le> 2 ^ 53" using hi by simp
  have "e_metadata e = None \<longrightarrow> \<not> is_removeMetadata m" using md by blast
  then have step: "e_version (snd (mutate m (s, e))) = e_version e + 1"
    by (rule mutate_version [OF lo hi1])
  have inv: "e_metadata (snd (mutate m (s, e))) \<noteq> None"
    by (rule mutate_keeps_metadata [OF md])
  have "e_version (snd (mutations ms (mutate m (s, e))))
          = e_version (snd (mutate m (s, e))) + int (length ms)"
    using lo hi by (intro Cons.IH [OF inv]) (simp_all add: step)
  then show ?case by (simp add: se step)
qed

text \<open>
  C2, as stated, fails in its first part. The constructor takes \<^verbatim>\<open>data.version || 1\<close>:
  an entity constructed from data that carries a version starts at that version, not at 1.
  \<^verbatim>\<open>new E({id: 'e1', version: 5})\<close> has version 5 after no mutation; and \<^verbatim>\<open>clone()\<close>, which
  constructs from \<^verbatim>\<open>toPlainObject()\<close>, creates an entity at the version of its original (2
  here, after one mutation of the original).
\<close>

theorem constructor_keeps_supplied_version:
  "e_version (snd (Entity_new (no_data\<lparr> d_id := Some ''e1'', d_version := Some 5 \<rparr>) ''n1'' 100 100 empty_store)) = 5
 \<and> e_version (snd (mutations []
       (Entity_new (no_data\<lparr> d_id := Some ''e1'', d_version := Some 5 \<rparr>) ''n1'' 100 100 empty_store)))
     \<noteq> 1 + int (length ([] :: mutation list))
 \<and> (let (s1, e) = Entity_new (no_data\<lparr> d_id := Some ''e1'' \<rparr>) ''n1'' 100 100 empty_store;
          (s2, e') = mutate (MarkAsUpdated None 150) (s1, e);
          (s3, c) = clone e' ''n2'' 200 200 s2
      in e_version e = 1 \<and> e_version e' = 2 \<and> e_version c = 2)"
  by (simp add: Entity_new_def clone_def toPlainObject_def markAsUpdated_def no_data_def
      empty_store_def alloc_empty_def Let_def str_or_def num_or_def truthy_str_def truthy_num_def
      nearest_int_exact)

text \<open>
  C2, amended. An entity constructed without a version (or with the falsy version 0)
  starts at version 1; one constructed from data that carries another version starts at
  that version. While the version stays within \<open>2^53\<close> in magnitude (where adding one to a
  double is exact), every mutating operation (\<^verbatim>\<open>markAsUpdated\<close>, \<^verbatim>\<open>softDelete\<close>, \<^verbatim>\<open>restore\<close>,
  \<^verbatim>\<open>addMetadata\<close>, \<^verbatim>\<open>removeMetadata\<close>), applied to an entity in any state, adds exactly 1 to
  the version, except that \<^verbatim>\<open>removeMetadata\<close> does nothing at all while the \<^verbatim>\<open>metadata\<close>
  field is unset; the constructor sets that field and no operation unsets it. Hence after
  construction and any \<open>N\<close> mutations that keep the version within \<open>2^53\<close>, the version is
  the starting version plus \<open>N\<close>, which is \<open>1 + N\<close> for an entity constructed without a
  version, and is not below the starting version.
\<close>

theorem version_counts_mutations:
  "e_version (snd (Entity_new (d\<lparr> d_version := None \<rparr>) nanoid nowC nowU s)) = 1
 \<and> e_version (snd (Entity_new (d\<lparr> d_version := Some 0 \<rparr>) nanoid nowC nowU s)) = 1
 \<and> (v \<noteq> 0 \<longrightarrow> e_version (snd (Entity_new (d\<lparr> d_version := Some v \<rparr>) nanoid nowC nowU s)) = v)
 \<and> (- (2 ^ 53) \<le> e_version e \<and> e_version e + 1 \<le> 2 ^ 53
      \<and> (e_metadata e = None \<longrightarrow> \<not> is_removeMetadata m) \<longrightarrow>
      e_version (snd (mutate m (st, e))) = e_version e + 1)
 \<and> (e_metadata e = None \<longrightarrow> mutate (RemoveMetadata k t) (st, e) = (st, e))
 \<and> e_metadata (snd (mutations ms (Entity_new d nanoid nowC nowU s))) \<noteq> None
 \<and> (- (2 ^ 53) \<le> e_version (snd (Entity_new d nanoid nowC nowU s))
      \<and> e_version (snd (Entity_new d nanoid nowC nowU s)) + int (length ms) \<le> 2 ^ 53 \<longrightarrow>
      e_version (snd (mutations ms (Entity_new d nanoid nowC nowU s)))
        = e_version (snd (Entity_new d nanoid nowC nowU s)) + int (length ms)
    \<and> e_version (snd (Entity_new d nanoid nowC nowU s))
        \<le> e_version (snd (mutations ms (Entity_new d nanoid nowC nowU s))))
 \<and> (1 + int (length ms) \<le> 2 ^ 53 \<longrightarrow>
      e_version (snd (mutations ms (Entity_new (d\<lparr> d_version := None \<rparr>) nanoid nowC nowU s)))
        = 1 + int (length ms))"
proof -
  have v1: "e_version (snd (Entity_new (d\<lparr> d_version := None \<rparr>) nanoid nowC nowU s)) = 1"
    by (simp add: Entity_new_def Let_def num_or_def split: option.splits prod.splits)
  have v0: "e_version (snd (Entity_new (d\<lparr> d_version := Some 0 \<rparr>) nanoid nowC nowU s)) = 1"
    by (simp add: Entity_new_def Let_def num_or_def truthy_num_def split: option.splits prod.splits)
  have kept: "v \<noteq> 0 \<longrightarrow> e_version (snd (Entity_new (d\<lparr> d_version := Some v \<rparr>) nanoid nowC nowU s)) = v"
    by (simp add: Entity_new_def Let_def num_or_def truthy_num_def split: option.splits prod.splits)
  have step: "- (2 ^ 53) \<le> e_version e \<and> e_version e + 1 \<le> 2 ^ 53
      \<and> (e_metadata e = None \<longrightarrow> \<not> is_removeMetadata m) \<longrightarrow>
      e_version (snd (mutate m (st, e))) = e_version e + 1"
    by (intro impI, elim conjE) (rule mutate_version)
  have unset: "e_metadata e = None \<longrightarrow> mutate (RemoveMetadata k t) (st, e) = (st, e)"
    using removeMetadata_unset [of e k t st] by blast
  have md: "e_metadata (snd (mutations ms se)) \<noteq> None" if "e_metadata (snd se) \<noteq> None" for se
    using that
  proof (induction ms arbitrary: se)
    case Nil
    then show ?case by simp
  next
    case (Cons m' ms')
    obtain s' e' where se: "se = (s', e')" by (cases se)
    from Cons.prems have "e_metadata e' \<noteq> None" by (simp add: se)
    from Cons.IH [OF mutate_keeps_metadata [OF this, of m' s']] show ?case by (simp add: se)
  qed
  have set: "e_metadata (snd (mutations ms (Entity_new d nanoid nowC nowU s))) \<noteq> None"
    by (rule md [OF Entity_new_metadata])
  have gen: "e_version (snd (mutations ms (Entity_new d nanoid nowC nowU s)))
        = e_version (snd (Entity_new d nanoid nowC nowU s)) + int (length ms)
    \<and> e_version (snd (Entity_new d nanoid nowC nowU s))
        \<le> e_version (snd (mutations ms (Entity_new d nanoid nowC nowU s)))"
    if "- (2 ^ 53) \<le> e_version (snd (Entity_new d nanoid nowC nowU s))
      \<and> e_version (snd (Entity_new d nanoid nowC nowU s)) + int (length ms) \<le> 2 ^ 53"
    using mutations_version [OF Entity_new_metadata, of d nanoid nowC nowU s ms] that by simp
  have fresh: "e_version (snd (mutations ms (Entity_new (d\<lparr> d_version := None \<rparr>) nanoid nowC nowU s)))
        = 1 + int (length ms)"
    if "1 + int (length ms) \<le> 2 ^ 53"
    using mutations_version [OF Entity_new_metadata, of "d\<lparr> d_version := None \<rparr>" nanoid nowC nowU s ms]
      that v1 by simp
  from v1 v0 kept step unset set gen fresh show ?thesis by blast
qed

theorem version_counts_mutations_witness:
  "(7::int) \<noteq> 0
 \<and> e_version (snd (Entity_new (no_data\<lparr> d_version := Some 7 \<rparr>) ''n1'' 100 100 empty_store)) = 7
 \<and> - (2 ^ 53) \<le> e_version deleted_row \<and> e_version deleted_row + 1 \<le> 2 ^ 53
 \<and> \<not> is_removeMetadata (AddMetadata ''k'' (VStr ''v'') 5)
 \<and> e_version (snd (mutate (AddMetadata ''k'' (VStr ''v'') 5) (empty_store, deleted_row))) = 3
 \<and> e_metadata deleted_row = None
 \<and> mutate (RemoveMetadata ''k'' 5) (empty_store, deleted_row) = (empty_store, deleted_row)
 \<and> 1 + int (length [SoftDelete None 110 110, Restore None 120, RemoveMetadata ''k'' 130]) \<le> 2 ^ 53
 \<and> e_version (snd (mutations [SoftDelete None 110 110, Restore None 120, RemoveMetadata ''k'' 130]
       (Entity_new (no_data\<lparr> d_version := None \<rparr>) ''n1'' 100 100 empty_store))) = 4
 \<and> e_version (snd (Entity_new (no_data\<lparr> d_version := Some 7 \<rparr>) ''n1'' 100 100 empty_store))
       + int (length [SoftDelete None 110 110, Restore None 120]) \<le> 2 ^ 53
 \<and> e_version (snd (mutations [SoftDelete None 110 110, Restore None 120]
       (Entity_new (no_data\<lparr> d_version := Some 7 \<rparr>) ''n1'' 100 100 empty_store))) = 9"
proof -
  note w = version_counts_mutations [where d = no_data and v = 7 and nanoid = "''n1''" and nowC = 100
      and nowU = 100 and s = empty_store and e = deleted_row and st = empty_store
      and m = "AddMetadata ''k'' (VStr ''v'') 5" and k = "''k''" and t = 5
      and ms = "[SoftDelete None 110 110, Restore None 120, RemoveMetadata ''k'' 130]"]
  note g = version_counts_mutations [where d = "no_data\<lparr> d_version := Some 7 \<rparr>" and nanoid = "''n1''"
      and nowC = 100 and nowU = 100 and s = empty_store
      and ms = "[SoftDelete None 110 110, Restore None 120]"]
  have v: "e_version deleted_row = 2" and md: "e_metadata deleted_row = None"
    by (simp_all add: deleted_row_def)
  have a: "e_version (snd (Entity_new (no_data\<lparr> d_version := Some 7 \<rparr>) ''n1'' 100 100 empty_store)) = 7"
    using w by simp
  have b: "e_version (snd (mutate (AddMetadata ''k'' (VStr ''v'') 5) (empty_store, deleted_row))) = 3"
    using w v by simp
  have c: "mutate (RemoveMetadata ''k'' 5) (empty_store, deleted_row) = (empty_store, deleted_row)"
    using w md by blast
  have d: "e_version (snd (mutations [SoftDelete None 110 110, Restore None 120, RemoveMetadata ''k'' 130]
       (Entity_new (no_data\<lparr> d_version := None \<rparr>) ''n1'' 100 100 empty_store))) = 4"
    using w by simp
  have f: "e_version (snd (mutations [SoftDelete None 110 110, Restore None 120]
       (Entity_new (no_data\<lparr> d_version := Some 7 \<rparr>) ''n1'' 100 100 empty_store))) = 9"
    using g a by simp
  from a b c d f v md show ?thesis by simp
qed

text \<open>
  C7, as stated, fails for an entity whose version has reached \<open>2^53\<close>, a state the
  constructor creates from data that carries this version: \<^verbatim>\<open>this.version++\<close> computes
  \<open>2^53 + 1\<close>, which is no double and rounds back to \<open>2^53\<close>, so \<^verbatim>\<open>softDelete\<close> then
  \<^verbatim>\<open>restore\<close> leaves the version as it was, not 2 greater.
\<close>

theorem softDelete_restore_absorbed_at_2_53:
  "e_version (snd (Entity_new (no_data\<lparr> d_id := Some ''e1'', d_version := Some 9007199254740992 \<rparr>)
       ''n1'' 100 100 empty_store)) = 2 ^ 53
 \<and> e_version (restore None 300 (softDelete None 200 200
       (snd (Entity_new (no_data\<lparr> d_id := Some ''e1'', d_version := Some 9007199254740992 \<rparr>)
          ''n1'' 100 100 empty_store)))) = 2 ^ 53
 \<and> e_version (restore None 300 (softDelete None 200 200
       (snd (Entity_new (no_data\<lparr> d_id := Some ''e1'', d_version := Some 9007199254740992 \<rparr>)
          ''n1'' 100 100 empty_store))))
     \<noteq> e_version (snd (Entity_new (no_data\<lparr> d_id := Some ''e1'', d_version := Some 9007199254740992 \<rparr>)
          ''n1'' 100 100 empty_store)) + 2"
  by (simp add: Entity_new_def restore_def softDelete_def markAsUpdated_def no_data_def
      empty_store_def alloc_empty_def Let_def str_or_def num_or_def truthy_str_def truthy_num_def
      nearest_int_absorbed_numeral)

text \<open>
  C7, amended. For an entity in any state, \<^verbatim>\<open>softDelete\<close> followed by \<^verbatim>\<open>restore\<close> leaves
  \<^verbatim>\<open>deletedAt\<close> unset (\<^verbatim>\<open>isDeleted()\<close> is false) and leaves the id unchanged; in between,
  the entity is deleted. For an entity whose version \<open>v\<close> is an integer with
  \<open>-2^53 \<le> v\<close> and \<open>v + 2 \<le> 2^53\<close>, the version afterwards is exactly \<open>v + 2\<close>, and
  \<open>v + 1\<close> in between.
\<close>

theorem softDelete_restore_roundtrip:
  "e_deletedAt (restore ub tc (softDelete ua ta tb e)) = DUndefined
 \<and> \<not> isDeleted (restore ub tc (softDelete ua ta tb e))
 \<and> e_id (restore ub tc (softDelete ua ta tb e)) = e_id e
 \<and> isDeleted (softDelete ua ta tb e)
 \<and> (- (2 ^ 53) \<le> e_version e \<and> e_version e + 2 \<le> 2 ^ 53 \<longrightarrow>
      e_version (restore ub tc (softDelete ua ta tb e)) = e_version e + 2
    \<and> e_version (softDelete ua ta tb e) = e_version e + 1)"
proof -
  have flags: "e_deletedAt (restore ub tc (softDelete ua ta tb e)) = DUndefined"
    "\<not> isDeleted (restore ub tc (softDelete ua ta tb e))"
    "e_id (restore ub tc (softDelete ua ta tb e)) = e_id e"
    "isDeleted (softDelete ua ta tb e)"
    by (simp_all add: restore_def softDelete_def markAsUpdated_def isDeleted_def)
  have vers: "e_version (restore ub tc (softDelete ua ta tb e)) = e_version e + 2
    \<and> e_version (softDelete ua ta tb e) = e_version e + 1"
    if b: "- (2 ^ 53) \<le> e_version e \<and> e_version e + 2 \<le> 2 ^ 53"
  proof -
    have one: "e_version (softDelete ua ta tb e) = e_version e + 1"
      using b by (simp add: softDelete_def markAsUpdated_version)
    have "e_version (restore ub tc (softDelete ua ta tb e)) = e_version (softDelete ua ta tb e) + 1"
      using b one by (simp add: restore_def markAsUpdated_version)
    with one show ?thesis by simp
  qed
  from flags vers show ?thesis by blast
qed

theorem softDelete_restore_roundtrip_witness:
  "- (2 ^ 53) \<le> e_version deleted_row \<and> e_version deleted_row + 2 \<le> 2 ^ 53
 \<and> e_version deleted_row = 2
 \<and> e_version (restore None 4 (softDelete (Some ''u1'') 3 3 deleted_row)) = 4
 \<and> e_version (softDelete (Some ''u1'') 3 3 deleted_row) = 3
 \<and> \<not> isDeleted (restore None 4 (softDelete (Some ''u1'') 3 3 deleted_row))
 \<and> e_id (restore None 4 (softDelete (Some ''u1'') 3 3 deleted_row)) = ''e1''"
proof -
  have v: "e_version deleted_row = 2" and i: "e_id deleted_row = ''e1''"
    by (simp_all add: deleted_row_def)
  show ?thesis
    using softDelete_restore_roundtrip [where e = deleted_row and ua = "Some ''u1''" and ta = 3
        and tb = 3 and ub = None and tc = 4] v i
    by simp
qed

text \<open>
  A clone made by \<^verbatim>\<open>clone()\<close> refers to the metadata object of its original: the
  constructor stores \<^verbatim>\<open>data.metadata\<close> as it is, and \<^verbatim>\<open>toPlainObject()\<close> hands over the
  original's reference.
\<close>

lemma clone_shares_metadata:
  assumes "e_metadata e = Some a"
  shows "e_metadata (snd (clone e nanoid nowC nowU s)) = Some a \<and> fst (clone e nanoid nowC nowU s) = s"
  using assms by (simp add: clone_def toPlainObject_def Entity_new_def Let_def)

text \<open>
  C8. The claim is that a clone is value-equal to its original and reference-independent of
  it. Evaluation of the code on the entity \<^verbatim>\<open>e = new E({id: 'e1'})\<close>, \<^verbatim>\<open>c = e.clone()\<close>,
  \<^verbatim>\<open>c.addMetadata('k', 'v')\<close>: the clone equals the original, the original has no key
  \<^verbatim>\<open>k\<close> before the clone is mutated, and has it afterwards, although only the clone was
  mutated (and the original's version is unchanged). The other way round,
  \<^verbatim>\<open>e.addMetadata('j', 1)\<close> shows in the clone.
\<close>

theorem clone_mutation_reaches_original:
  "(let (s1, e) = Entity_new (no_data\<lparr> d_id := Some ''e1'' \<rparr>) ''n1'' 100 100 empty_store;
        (s2, c) = clone e ''n2'' 200 200 s1;
        (s3, c') = addMetadata ''k'' (VStr ''v'') 300 (s2, c);
        (s4, e') = addMetadata ''j'' (VNum 1) 400 (s3, e)
    in equals c e
     \<and> getMetadata ''k'' (s2, e) = None
     \<and> getMetadata ''k'' (s3, e) = Some (VStr ''v'')
     \<and> e_version e = 1 \<and> e_version c' = 2
     \<and> getMetadata ''j'' (s3, c') = None
     \<and> getMetadata ''j'' (s4, c') = Some (VNum 1))"
  by (simp add: Entity_new_def clone_def toPlainObject_def addMetadata_def getMetadata_def
      equals_def markAsUpdated_def no_data_def empty_store_def alloc_empty_def Let_def
      str_or_def num_or_def truthy_str_def truthy_num_def nearest_int_exact)

section \<open>Properties of the repository's read paths\<close>

lemmas eff_defs = run_def calls_def outcome_def tryCatch_def invoke_def andThen_def throw_def
  ret_def awaitBoth_def awaitCall_def












section \<open>Properties of the service\<close>

lemma service_create_order:
  assumes "truthy_flag (sc_validation config)"
  shows "invoked_before ValidateCreate RepositoryCreate
           (calls (run (service_create config sv traceId data options) w))"
  using assms
  by (simp add: service_create_def eff_defs invoked_before_def split: prod.splits sum.splits)

lemma service_create_rejected:
  assumes "truthy_flag (sc_validation config)"
    and "beforeCreate sv data options w = (Inr (), wa)"
    and "validateCreate sv data options wa = (Inl error, wb)"
  shows "calls (run (service_create config sv traceId data options) w)
           = [BeforeCreate, ValidateCreate, ServiceOnError ''create'']"
    and "outcome (run (service_create config sv traceId data options) w)
           = (case fst (service_onError sv ''create'' error (CreateContext data options traceId) wb) of
                Inl error' \<Rightarrow> Inl error'
              | Inr u \<Rightarrow> Inl error)"
  using assms
  by (simp_all add: service_create_def eff_defs split: prod.splits sum.splits)

lemma service_update_order:
  assumes "truthy_flag (sc_validation config)"
  shows "invoked_before ValidateUpdate RepositoryUpdate
           (calls (run (service_update config sv traceId ident data options) w))"
  using assms
  by (simp add: service_update_def eff_defs invoked_before_def split: prod.splits sum.splits)

lemma service_update_rejected:
  assumes "truthy_flag (sc_validation config)"
    and "beforeUpdate sv ident data options w = (Inr (), wa)"
    and "validateUpdate sv ident data options wa = (Inl error, wb)"
  shows "calls (run (service_update config sv traceId ident data options) w)
           = [BeforeUpdate, ValidateUpdate, ServiceOnError ''update'']"
    and "outcome (run (service_update config sv traceId ident data options) w)
           = (case fst (service_onError sv ''update'' error (UpdateContext ident data options traceId) wb) of
                Inl error' \<Rightarrow> Inl error'
              | Inr u \<Rightarrow> Inl error)"
  using assms
  by (simp_all add: service_update_def eff_defs split: prod.splits sum.splits)

text \<open>
  C9, as stated, fails in its last part. The \<^verbatim>\<open>catch\<close> block awaits the \<^verbatim>\<open>onError\<close> hook
  before it rethrows. With validation enabled (the default) and a subclass whose
  \<^verbatim>\<open>onError\<close> throws, the validation hook raises \<^verbatim>\<open>name is required\<close> on the empty name,
  the repository is not called, and the caller receives \<^verbatim>\<open>handler failed\<close>: the error the
  validation hook raised does not reach the caller.
\<close>

theorem validation_error_replaced_by_handler:
  "truthy_flag (sc_validation (BaseService_config default_service_config))
 \<and> validateCreate throwing_handler_service [] () 0 = (Inl ''name is required'', 0)
 \<and> calls (run (service_create (BaseService_config default_service_config) throwing_handler_service
              ''t1'' [] ()) 0)
     = [BeforeCreate, ValidateCreate, ServiceOnError ''create'']
 \<and> outcome (run (service_create (BaseService_config default_service_config) throwing_handler_service
              ''t1'' [] ()) 0)
     = Inl ''handler failed''
 \<and> outcome (run (service_create (BaseService_config default_service_config) throwing_handler_service
              ''t1'' [] ()) 0)
     \<noteq> Inl ''name is required''"
  by (simp add: service_create_def eff_defs BaseService_config_def default_service_config_def
      supplied_or_def truthy_flag_def throwing_handler_service_def name_service_def)

text \<open>
  C9, amended. With the validation flag enabled, \<^verbatim>\<open>create\<close> and \<^verbatim>\<open>update\<close> invoke the
  validation hook strictly before the repository's \<^verbatim>\<open>create\<close> and \<^verbatim>\<open>update\<close>. For every
  input on which the validation hook raises (the before-hook having returned), the
  repository mutation is never invoked, the \<^verbatim>\<open>onError\<close> hook is invoked once with the raised
  error, and the call rejects: with the raised error when the \<^verbatim>\<open>onError\<close> hook returns, and
  with the \<^verbatim>\<open>onError\<close> hook's own error when that hook throws.
\<close>

theorem validation_precedes_mutation:
  assumes "truthy_flag (sc_validation config)"
  shows "invoked_before ValidateCreate RepositoryCreate
           (calls (run (service_create config sv traceId data options) w))
       \<and> invoked_before ValidateUpdate RepositoryUpdate
           (calls (run (service_update config sv traceId ident udata options) w))
       \<and> (beforeCreate sv data options w = (Inr (), wa)
            \<and> validateCreate sv data options wa = (Inl error, wb) \<longrightarrow>
              RepositoryCreate \<notin> set (calls (run (service_create config sv traceId data options) w))
            \<and> calls (run (service_create config sv traceId data options) w)
                = [BeforeCreate, ValidateCreate, ServiceOnError ''create'']
            \<and> outcome (run (service_create config sv traceId data options) w)
                = (case fst (service_onError sv ''create'' error (CreateContext data options traceId) wb) of
                     Inl error' \<Rightarrow> Inl error'
                   | Inr u \<Rightarrow> Inl error))
       \<and> (beforeUpdate sv ident udata options w = (Inr (), wa)
            \<and> validateUpdate sv ident udata options wa = (Inl error, wb) \<longrightarrow>
              RepositoryUpdate \<notin> set (calls (run (service_update config sv traceId ident udata options) w))
            \<and> calls (run (service_update config sv traceId ident udata options) w)
                = [BeforeUpdate, ValidateUpdate, ServiceOnError ''update'']
            \<and> outcome (run (service_update config sv traceId ident udata options) w)
                = (case fst (service_onError sv ''update'' error (UpdateContext ident udata options traceId) wb) of
                     Inl error' \<Rightarrow> Inl error'
                   | Inr u \<Rightarrow> Inl error))"
proof -
  have cr: "RepositoryCreate \<notin> set (calls (run (service_create config sv traceId data options) w))
            \<and> calls (run (service_create config sv traceId data options) w)
                = [BeforeCreate, ValidateCreate, ServiceOnError ''create'']
            \<and> outcome (run (service_create config sv traceId data options) w)
                = (case fst (service_onError sv ''create'' error (CreateContext data options traceId) wb) of
                     Inl error' \<Rightarrow> Inl error'
                   | Inr u \<Rightarrow> Inl error)"
    if b: "beforeCreate sv data options w = (Inr (), wa)"
      and v: "validateCreate sv data options wa = (Inl error, wb)"
    using service_create_rejected [OF assms b v] by simp
  have up: "RepositoryUpdate \<notin> set (calls (run (service_update config sv traceId ident udata options) w))
            \<and> calls (run (service_update config sv traceId ident udata options) w)
                = [BeforeUpdate, ValidateUpdate, ServiceOnError ''update'']
            \<and> outcome (run (service_update config sv traceId ident udata options) w)
                = (case fst (service_onError sv ''update'' error (UpdateContext ident udata options traceId) wb) of
                     Inl error' \<Rightarrow> Inl error'
                   | Inr u \<Rightarrow> Inl error)"
    if b: "beforeUpdate sv ident udata options w = (Inr (), wa)"
      and v: "validateUpdate sv ident udata options wa = (Inl error, wb)"
    using service_update_rejected [OF assms b v] by simp
  show ?thesis
    using cr up service_create_order [OF assms] service_update_order [OF assms]
    by (intro conjI impI; (elim conjE)?; fast)
qed

theorem validation_precedes_mutation_witness:
  "truthy_flag (sc_validation (BaseService_config default_service_config))
 \<and> beforeCreate name_service [] () 0 = (Inr (), 0)
 \<and> validateCreate name_service [] () 0 = (Inl ''name is required'', 0)
 \<and> calls (run (service_create (BaseService_config default_service_config) name_service ''t1'' [] ()) 0)
     = [BeforeCreate, ValidateCreate, ServiceOnError ''create'']
 \<and> outcome (run (service_create (BaseService_config default_service_config) name_service ''t1'' [] ()) 0)
     = Inl ''name is required''
 \<and> invoked_before ValidateCreate RepositoryCreate
      (calls (run (service_create (BaseService_config default_service_config) name_service ''t1'' ''ann'' ()) 0))
 \<and> RepositoryCreate \<in> set
      (calls (run (service_create (BaseService_config default_service_config) name_service ''t1'' ''ann'' ()) 0))"
proof -
  let ?cfg = "BaseService_config default_service_config"
  have on: "truthy_flag (sc_validation ?cfg)"
    by (simp add: BaseService_config_def default_service_config_def supplied_or_def truthy_flag_def)
  have b: "beforeCreate name_service [] () 0 = (Inr (), 0)"
    and v: "validateCreate name_service [] () 0 = (Inl ''name is required'', 0)"
    by (simp_all add: name_service_def)
  note rejected = validation_precedes_mutation [OF on, where sv = name_service and data = "[]"
      and options = "()" and w = 0 and wa = 0 and wb = 0 and error = "''name is required''"
      and traceId = "''t1''"]
  note accepted = validation_precedes_mutation [OF on, where sv = name_service and data = "''ann''"
      and options = "()" and w = 0 and traceId = "''t1''"]
  have c: "calls (run (service_create ?cfg name_service ''t1'' [] ()) 0)
             = [BeforeCreate, ValidateCreate, ServiceOnError ''create'']"
    using rejected b v by fast
  have "outcome (run (service_create ?cfg name_service ''t1'' [] ()) 0)
          = (case fst (service_onError name_service ''create'' ''name is required''
                         (CreateContext [] () ''t1'') 0) of
               Inl error' \<Rightarrow> Inl error'
             | Inr u \<Rightarrow> Inl ''name is required'')"
    using rejected b v by fast
  then have d: "outcome (run (service_create ?cfg name_service ''t1'' [] ()) 0) = Inl ''name is required''"
    by (simp add: name_service_def)
  have e: "invoked_before ValidateCreate RepositoryCreate
             (calls (run (service_create ?cfg name_service ''t1'' ''ann'' ()) 0))"
    using accepted by fast
  have f: "RepositoryCreate \<in> set (calls (run (service_create ?cfg name_service ''t1'' ''ann'' ()) 0))"
    by (simp add: service_create_def eff_defs BaseService_config_def default_service_config_def
        supplied_or_def truthy_flag_def name_service_def)
  from on b v c d e f show ?thesis by (intro conjI)
qed

section \<open>Properties of error handling\<close>

lemma errorToResponse_default:
  assumes "\<not> has_dedicated_branch (be_class e)"
  shows "errorToResponse e nanoid now =
           createServerErrorResponse
             (Some (if shouldExposeMessage e then be_message e else ''Internal server error''))
             (Some (be_traceId e)) nanoid now"
  using assms by (cases "be_class e") (simp_all add: errorToResponse_def Let_def)

lemma createServerErrorResponse_descriptor:
  "createServerErrorResponse (Some m) (Some t) nanoid now =
     createErrorResponse (Inr (serverErrorDescriptor m (Some t) nanoid)) (Some m) (Some t) nanoid now"
  by (simp add: createServerErrorResponse_def defaulted_def Let_def)

lemma createServerErrorResponse_fields:
  "createServerErrorResponse (Some m) (Some t) nanoid now =
     \<lparr> ar_success = False, ar_data = None, ar_error = Some m, ar_message = Some m,
       ar_timestamp = now, ar_traceId = str_or (Some t) nanoid \<rparr>"
  by (simp add: createServerErrorResponse_def createErrorResponse_def serverErrorDescriptor_def
      defaulted_def Let_def str_or_def truthy_str_def)

lemma transformToBaseError_raw:
  assumes "\<not> is_taxonomy x"
  shows "\<exists>m. transformToBaseError x ctx nanoid now = new_InternalServerError (Some m) ctx nanoid now"
proof (cases x)
  case (ThrownBaseError e)
  with assms show ?thesis by simp
next
  case (ThrownError m)
  then show ?thesis by auto
next
  case (ThrownValue v)
  then show ?thesis by (cases v) auto
qed

lemma internal_error_response:
  "errorToResponse (new_InternalServerError (Some m) ctx nanoid now) nanoid' now' =
     createServerErrorResponse (Some ''Internal server error'')
       (Some (str_or (map_option ec_traceId ctx) nanoid)) nanoid' now'"
  by (simp add: errorToResponse_def new_InternalServerError_def BaseError_new_def
      shouldExposeMessage_def Let_def)

text \<open>
  \<^verbatim>\<open>handleError\<close> returns a response exactly when the context serialises, and the response
  is then the one \<^verbatim>\<open>errorToResponse\<close> makes of the transformed error.
\<close>

lemma handleError_serialised:
  assumes "context_failure ctx = None"
  shows "response_of (handleError x ctx env)
           = Some (errorToResponse (transformToBaseError x ctx (id_for_error env) (time_of_error env))
                     (id_for_response env) (time_of_response env))"
    and "map_option log_message (logged_by (handleError x ctx env))
           = Some (be_message (transformToBaseError x ctx (id_for_error env) (time_of_error env)))"
  using assms by (simp_all add: handleError_def logError_def response_of_def logged_by_def Let_def)

lemma handleError_rejected:
  assumes "context_failure ctx = Some t"
  shows "handleError x ctx env = Inl t" and "response_of (handleError x ctx env) = None"
  using assms by (simp_all add: handleError_def logError_def response_of_def Let_def)

lemma example_contexts:
  "context_failure None = None"
  "context_failure (Some plain_context) = None"
  "context_failure (Some bigint_context) = Some BigIntNotSerializable"
  by (simp_all add: context_failure_def plain_context_def bigint_context_def)

text \<open>
  C3, as stated, fails in two ways. For the plain \<^verbatim>\<open>Error('boom')\<close> and no context the
  response is \<^verbatim>\<open>{success: false, error: 'Internal server error', message: 'Internal server
  error', timestamp, traceId}\<close>: generic, as the claim says, but with no error code in it.
  The code \<^verbatim>\<open>INTERNAL_SERVER_ERROR\<close> is set on the descriptor inside
  \<^verbatim>\<open>createServerErrorResponse\<close>, and \<^verbatim>\<open>createErrorResponse\<close> copies only the descriptor's
  message and trace id. And with a context whose metadata holds a \<^verbatim>\<open>BigInt\<close>, \<^verbatim>\<open>logError\<close>
  throws inside \<^verbatim>\<open>JSON.stringify\<close> and \<^verbatim>\<open>handleError\<close> rejects: there is no response.
\<close>

theorem raw_failure_response_has_no_code:
  "response_of (handleError (ThrownError ''boom'') None example_env)
     = Some \<lparr> ar_success = False, ar_data = None, ar_error = Some ''Internal server error'',
              ar_message = Some ''Internal server error'', ar_timestamp = 12, ar_traceId = ''trace-1'' \<rparr>
 \<and> ''INTERNAL_SERVER_ERROR''
     \<notin> set (response_texts
              \<lparr> ar_success = False, ar_data = None, ar_error = Some ''Internal server error'',
                ar_message = Some ''Internal server error'', ar_timestamp = 12, ar_traceId = ''trace-1'' \<rparr>)
 \<and> handleError (ThrownError ''boom'') (Some bigint_context) example_env = Inl BigIntNotSerializable
 \<and> response_of (handleError (ThrownError ''boom'') (Some bigint_context) example_env) = None"
proof -
  have a: "response_of (handleError (ThrownError ''boom'') None example_env)
     = Some \<lparr> ar_success = False, ar_data = None, ar_error = Some ''Internal server error'',
              ar_message = Some ''Internal server error'', ar_timestamp = 12, ar_traceId = ''trace-1'' \<rparr>"
    unfolding handleError_serialised(1) [OF example_contexts(1)]
    by (simp add: internal_error_response createServerErrorResponse_fields example_env_def
        str_or_def truthy_str_def)
  have b: "''INTERNAL_SERVER_ERROR''
     \<notin> set (response_texts
              \<lparr> ar_success = False, ar_data = None, ar_error = Some ''Internal server error'',
                ar_message = Some ''Internal server error'', ar_timestamp = 12, ar_traceId = ''trace-1'' \<rparr>)"
    by (simp add: response_texts_def)
  have c: "handleError (ThrownError ''boom'') (Some bigint_context) example_env = Inl BigIntNotSerializable"
    by (rule handleError_rejected(1) [OF example_contexts(3)])
  have d: "response_of (handleError (ThrownError ''boom'') (Some bigint_context) example_env) = None"
    by (rule handleError_rejected(2) [OF example_contexts(3)])
  from a b c d show ?thesis by (intro conjI)
qed

text \<open>
  C3, amended. For every failure value that is not a taxonomy \<^verbatim>\<open>BaseError\<close> (a plain
  \<^verbatim>\<open>Error\<close>, a string, any other value) and every context that \<^verbatim>\<open>JSON.stringify\<close> can
  serialise (no context, or one whose metadata holds no \<^verbatim>\<open>BigInt\<close> and no circular
  structure), \<^verbatim>\<open>handleError\<close> returns a response with \<^verbatim>\<open>success = false\<close> whose \<^verbatim>\<open>error\<close>
  and \<^verbatim>\<open>message\<close> are both the generic \<^verbatim>\<open>Internal server error\<close>; it is the response
  \<^verbatim>\<open>createErrorResponse\<close> makes of a descriptor with code \<^verbatim>\<open>INTERNAL_SERVER_ERROR\<close>, and the
  envelope itself has no code. The response is the same whatever the failure and its
  message are; the original message goes to the logged record only. For a context that
  does not serialise, \<^verbatim>\<open>handleError\<close> rejects with the \<^verbatim>\<open>TypeError\<close> of \<^verbatim>\<open>JSON.stringify\<close> and
  returns no response.
\<close>

theorem raw_failure_is_generic_server_error:
  assumes "\<not> is_taxonomy x"
  shows "(context_failure ctx = None \<longrightarrow>
            response_of (handleError x ctx env)
              = Some \<lparr> ar_success = False, ar_data = None, ar_error = Some ''Internal server error'',
                       ar_message = Some ''Internal server error'', ar_timestamp = time_of_response env,
                       ar_traceId = str_or (Some (str_or (map_option ec_traceId ctx) (id_for_error env)))
                                      (id_for_response env) \<rparr>
          \<and> response_of (handleError x ctx env)
              = Some (createErrorResponse
                        (Inr (serverErrorDescriptor ''Internal server error''
                                (Some (str_or (map_option ec_traceId ctx) (id_for_error env)))
                                (id_for_response env)))
                        (Some ''Internal server error'')
                        (Some (str_or (map_option ec_traceId ctx) (id_for_error env)))
                        (id_for_response env) (time_of_response env))
          \<and> (\<not> is_taxonomy y \<longrightarrow>
                response_of (handleError y ctx env) = response_of (handleError x ctx env))
          \<and> map_option log_message (logged_by (handleError (ThrownError m) ctx env)) = Some m)
       \<and> ae_code (serverErrorDescriptor ''Internal server error''
                     (Some (str_or (map_option ec_traceId ctx) (id_for_error env))) (id_for_response env))
           = ''INTERNAL_SERVER_ERROR''
       \<and> (context_failure ctx = Some t \<longrightarrow>
            handleError x ctx env = Inl t \<and> response_of (handleError x ctx env) = None)"
proof -
  have generic: "response_of (handleError z ctx env)
      = Some (createServerErrorResponse (Some ''Internal server error'')
                (Some (str_or (map_option ec_traceId ctx) (id_for_error env)))
                (id_for_response env) (time_of_response env))"
    if "\<not> is_taxonomy z" and ok: "context_failure ctx = None" for z
  proof -
    from transformToBaseError_raw [OF that(1), of ctx "id_for_error env" "time_of_error env"]
    obtain m' where "transformToBaseError z ctx (id_for_error env) (time_of_error env)
        = new_InternalServerError (Some m') ctx (id_for_error env) (time_of_error env)"
      by blast
    then show ?thesis
      by (simp add: handleError_serialised(1) [OF ok] internal_error_response)
  qed
  have logged: "map_option log_message (logged_by (handleError (ThrownError m) ctx env)) = Some m"
    if ok: "context_failure ctx = None"
    by (simp add: handleError_serialised(2) [OF ok] new_InternalServerError_def
        BaseError_new_def defaulted_def)
  have code: "ae_code (serverErrorDescriptor ''Internal server error''
                     (Some (str_or (map_option ec_traceId ctx) (id_for_error env))) (id_for_response env))
           = ''INTERNAL_SERVER_ERROR''"
    by (simp add: serverErrorDescriptor_def)
  have same: "\<not> is_taxonomy y \<longrightarrow>
      response_of (handleError y ctx env) = response_of (handleError x ctx env)"
    if ok: "context_failure ctx = None"
    using generic [of y, OF _ ok] generic [OF assms ok] by simp
  have fields: "response_of (handleError x ctx env)
           = Some \<lparr> ar_success = False, ar_data = None, ar_error = Some ''Internal server error'',
                    ar_message = Some ''Internal server error'', ar_timestamp = time_of_response env,
                    ar_traceId = str_or (Some (str_or (map_option ec_traceId ctx) (id_for_error env)))
                                   (id_for_response env) \<rparr>"
    if ok: "context_failure ctx = None"
    by (simp only: generic [OF assms ok] createServerErrorResponse_fields)
  have descr: "response_of (handleError x ctx env)
           = Some (createErrorResponse
                     (Inr (serverErrorDescriptor ''Internal server error''
                             (Some (str_or (map_option ec_traceId ctx) (id_for_error env)))
                             (id_for_response env)))
                     (Some ''Internal server error'')
                     (Some (str_or (map_option ec_traceId ctx) (id_for_error env)))
                     (id_for_response env) (time_of_response env))"
    if ok: "context_failure ctx = None"
    by (simp only: generic [OF assms ok] createServerErrorResponse_descriptor)
  have rejected: "handleError x ctx env = Inl t \<and> response_of (handleError x ctx env) = None"
    if "context_failure ctx = Some t"
    using handleError_rejected [OF that] by simp
  have served: "context_failure ctx = None \<longrightarrow>
            response_of (handleError x ctx env)
              = Some \<lparr> ar_success = False, ar_data = None, ar_error = Some ''Internal server error'',
                       ar_message = Some ''Internal server error'', ar_timestamp = time_of_response env,
                       ar_traceId = str_or (Some (str_or (map_option ec_traceId ctx) (id_for_error env)))
                                      (id_for_response env) \<rparr>
          \<and> response_of (handleError x ctx env)
              = Some (createErrorResponse
                        (Inr (serverErrorDescriptor ''Internal server error''
                                (Some (str_or (map_option ec_traceId ctx) (id_for_error env)))
                                (id_for_response env)))
                        (Some ''Internal server error'')
                        (Some (str_or (map_option ec_traceId ctx) (id_for_error env)))
                        (id_for_response env) (time_of_response env))
          \<and> (\<not> is_taxonomy y \<longrightarrow>
                response_of (handleError y ctx env) = response_of (handleError x ctx env))
          \<and> map_option log_message (logged_by (handleError (ThrownError m) ctx env)) = Some m"
    (is "_ \<longrightarrow> ?served")
  proof
    assume ok: "context_failure ctx = None"
    from fields [OF ok] descr [OF ok] same [OF ok] logged [OF ok] show ?served
      by (intro conjI)
  qed
  from rejected have rejected': "context_failure ctx = Some t \<longrightarrow>
            handleError x ctx env = Inl t \<and> response_of (handleError x ctx env) = None"
    by (rule impI)
  from served code rejected' show ?thesis
    by (intro conjI)
qed

theorem raw_failure_is_generic_server_error_witness:
  "\<not> is_taxonomy (ThrownValue (VStr ''disk on fire''))
 \<and> context_failure (Some plain_context) = None
 \<and> response_of (handleError (ThrownValue (VStr ''disk on fire'')) (Some plain_context) example_env)
     = Some \<lparr> ar_success = False, ar_data = None, ar_error = Some ''Internal server error'',
              ar_message = Some ''Internal server error'', ar_timestamp = 12, ar_traceId = ''trace-9'' \<rparr>
 \<and> map_option log_message (logged_by (handleError (ThrownError ''disk on fire'') (Some plain_context) example_env))
     = Some ''disk on fire''
 \<and> \<not> is_taxonomy (ThrownError ''disk on fire'')
 \<and> response_of (handleError (ThrownError ''disk on fire'') (Some plain_context) example_env)
     = response_of (handleError (ThrownValue (VStr ''disk on fire'')) (Some plain_context) example_env)
 \<and> context_failure (Some bigint_context) = Some BigIntNotSerializable
 \<and> handleError (ThrownValue (VStr ''disk on fire'')) (Some bigint_context) example_env
     = Inl BigIntNotSerializable"
proof -
  have h: "\<not> is_taxonomy (ThrownValue (VStr ''disk on fire''))" by simp
  note ok = example_contexts(2) and bad = example_contexts(3)
  note w = raw_failure_is_generic_server_error [OF h, where ctx = "Some plain_context" and env = example_env
      and y = "ThrownError ''disk on fire''" and m = "''disk on fire''"]
  note v = raw_failure_is_generic_server_error [OF h, where ctx = "Some bigint_context" and env = example_env
      and t = BigIntNotSerializable]
  have r: "response_of (handleError (ThrownValue (VStr ''disk on fire'')) (Some plain_context) example_env)
             = Some \<lparr> ar_success = False, ar_data = None, ar_error = Some ''Internal server error'',
                      ar_message = Some ''Internal server error'', ar_timestamp = 12,
                      ar_traceId = ''trace-9'' \<rparr>"
    using w [THEN conjunct1, rule_format, OF ok, THEN conjunct1]
    by (simp add: example_env_def plain_context_def str_or_def truthy_str_def)
  have l: "map_option log_message
             (logged_by (handleError (ThrownError ''disk on fire'') (Some plain_context) example_env))
             = Some ''disk on fire''"
    by (rule w [THEN conjunct1, rule_format, OF ok, THEN conjunct2, THEN conjunct2, THEN conjunct2])
  have j: "handleError (ThrownValue (VStr ''disk on fire'')) (Some bigint_context) example_env
             = Inl BigIntNotSerializable"
    by (rule v [THEN conjunct2, THEN conjunct2, rule_format, OF bad, THEN conjunct1])
  have h': "\<not> is_taxonomy (ThrownError ''disk on fire'')" by simp
  have q: "response_of (handleError (ThrownError ''disk on fire'') (Some plain_context) example_env)
             = response_of (handleError (ThrownValue (VStr ''disk on fire'')) (Some plain_context) example_env)"
    by (rule w [THEN conjunct1, rule_format, OF ok, THEN conjunct2, THEN conjunct2, THEN conjunct1,
          rule_format, OF h'])
  from h ok r l h' q bad j show ?thesis by (intro conjI)
qed

lemma undedicated_4xx_response:
  assumes "\<not> has_dedicated_branch (be_class e)"
    and "400 \<le> be_statusCode e" and "be_statusCode e < 500"
    and "context_failure ctx = None"
  shows "response_of (handleError (ThrownBaseError e) ctx env)
           = Some (createServerErrorResponse (Some (be_message e)) (Some (be_traceId e))
                     (id_for_response env) (time_of_response env))"
  using assms(1-3)
  by (simp add: handleError_serialised(1) [OF assms(4)] errorToResponse_default shouldExposeMessage_def)

lemma domain_errors_undedicated:
  "\<not> has_dedicated_branch (be_class (new_BusinessRuleError message rule ruleParams ctx nanoid now))"
  "\<not> has_dedicated_branch (be_class (new_ConcurrencyError message expectedVersion actualVersion ctx nanoid now))"
  "\<not> has_dedicated_branch (be_class (new_TimeoutError message operation timeoutMs ctx nanoid now))"
  "\<not> has_dedicated_branch (be_class (new_ResourceExhaustedError message resource limit current ctx nanoid now))"
  "\<not> has_dedicated_branch (be_class (new_InvariantViolationError message invariant aggregateId aggregateType ctx nanoid now))"
  by (simp_all add: new_BusinessRuleError_def new_ConcurrencyError_def new_TimeoutError_def
      new_ResourceExhaustedError_def new_InvariantViolationError_def BaseError_new_def)

lemma domain_errors_status:
  "be_statusCode (new_BusinessRuleError message rule ruleParams ctx nanoid now) = 422"
  "be_statusCode (new_ConcurrencyError message expectedVersion actualVersion ctx nanoid now) = 409"
  "be_statusCode (new_TimeoutError message operation timeoutMs ctx nanoid now) = 408"
  "be_statusCode (new_ResourceExhaustedError message resource limit current ctx nanoid now) = 429"
  "be_statusCode (new_InvariantViolationError message invariant aggregateId aggregateType ctx nanoid now) = 422"
  by (simp_all add: new_BusinessRuleError_def new_ConcurrencyError_def new_TimeoutError_def
      new_ResourceExhaustedError_def new_InvariantViolationError_def BaseError_new_def)

lemma domain_errors_code:
  "be_code (new_BusinessRuleError message rule ruleParams ctx nanoid now) = ''BUSINESS_RULE_ERROR''"
  "be_code (new_ConcurrencyError message expectedVersion actualVersion ctx nanoid now) = ''CONCURRENCY_ERROR''"
  "be_code (new_TimeoutError message operation timeoutMs ctx nanoid now) = ''TIMEOUT_ERROR''"
  "be_code (new_ResourceExhaustedError message resource limit current ctx nanoid now) = ''RESOURCE_EXHAUSTED''"
  "be_code (new_InvariantViolationError message invariant aggregateId aggregateType ctx nanoid now) = ''INVARIANT_VIOLATION''"
  by (simp_all add: new_BusinessRuleError_def new_ConcurrencyError_def new_TimeoutError_def
      new_ResourceExhaustedError_def new_InvariantViolationError_def BaseError_new_def)

lemma domain_errors_message:
  "be_message (new_BusinessRuleError message rule ruleParams ctx nanoid now) = message"
  "be_message (new_ConcurrencyError message expectedVersion actualVersion ctx nanoid now) = message"
  "be_message (new_TimeoutError message operation timeoutMs ctx nanoid now) = message"
  "be_message (new_ResourceExhaustedError message resource limit current ctx nanoid now) = message"
  "be_message (new_InvariantViolationError message invariant aggregateId aggregateType ctx nanoid now) = message"
  by (simp_all add: new_BusinessRuleError_def new_ConcurrencyError_def new_TimeoutError_def
      new_ResourceExhaustedError_def new_InvariantViolationError_def BaseError_new_def)

text \<open>
  C10, as stated, fails in its last part. For the \<^verbatim>\<open>ConcurrencyError('stale version', 3, 4)\<close>
  and no context the response exposes the message, as the claim says, and is
  \<^verbatim>\<open>{success: false, error: 'stale version', message: 'stale version', timestamp, traceId}\<close>:
  it has no error code, neither \<^verbatim>\<open>INTERNAL_SERVER_ERROR\<close> nor the error's own
  \<^verbatim>\<open>CONCURRENCY_ERROR\<close>. And with a context whose metadata holds a \<^verbatim>\<open>BigInt\<close>,
  \<^verbatim>\<open>handleError\<close> rejects and exposes nothing.
\<close>

theorem undedicated_4xx_response_has_no_code:
  "be_code version_conflict = ''CONCURRENCY_ERROR''
 \<and> be_statusCode version_conflict = 409
 \<and> response_of (handleError (ThrownBaseError version_conflict) None example_env)
     = Some \<lparr> ar_success = False, ar_data = None, ar_error = Some ''stale version'',
              ar_message = Some ''stale version'', ar_timestamp = 12, ar_traceId = ''trace-0'' \<rparr>
 \<and> ''INTERNAL_SERVER_ERROR''
     \<notin> set (response_texts
              \<lparr> ar_success = False, ar_data = None, ar_error = Some ''stale version'',
                ar_message = Some ''stale version'', ar_timestamp = 12, ar_traceId = ''trace-0'' \<rparr>)
 \<and> ''CONCURRENCY_ERROR''
     \<notin> set (response_texts
              \<lparr> ar_success = False, ar_data = None, ar_error = Some ''stale version'',
                ar_message = Some ''stale version'', ar_timestamp = 12, ar_traceId = ''trace-0'' \<rparr>)
 \<and> handleError (ThrownBaseError version_conflict) (Some bigint_context) example_env
     = Inl BigIntNotSerializable"
proof -
  have r: "response_of (handleError (ThrownBaseError version_conflict) None example_env)
     = Some \<lparr> ar_success = False, ar_data = None, ar_error = Some ''stale version'',
              ar_message = Some ''stale version'', ar_timestamp = 12, ar_traceId = ''trace-0'' \<rparr>"
    unfolding version_conflict_def
    by (simp add: undedicated_4xx_response domain_errors_undedicated domain_errors_status
        createServerErrorResponse_fields domain_errors_message example_contexts)
       (simp add: new_ConcurrencyError_def BaseError_new_def example_env_def str_or_def truthy_str_def)
  have j: "handleError (ThrownBaseError version_conflict) (Some bigint_context) example_env
     = Inl BigIntNotSerializable"
    by (rule handleError_rejected(1) [OF example_contexts(3)])
  have c: "be_code version_conflict = ''CONCURRENCY_ERROR''" "be_statusCode version_conflict = 409"
    by (simp_all add: version_conflict_def domain_errors_code domain_errors_status)
  have n: "''INTERNAL_SERVER_ERROR''
     \<notin> set (response_texts
              \<lparr> ar_success = False, ar_data = None, ar_error = Some ''stale version'',
                ar_message = Some ''stale version'', ar_timestamp = 12, ar_traceId = ''trace-0'' \<rparr>)"
    "''CONCURRENCY_ERROR''
     \<notin> set (response_texts
              \<lparr> ar_success = False, ar_data = None, ar_error = Some ''stale version'',
                ar_message = Some ''stale version'', ar_timestamp = 12, ar_traceId = ''trace-0'' \<rparr>)"
    by (simp_all add: response_texts_def)
  from c r n j show ?thesis by (intro conjI)
qed

text \<open>
  C10, amended. For every taxonomy error with a 4xx status code that has no branch of its
  own in \<^verbatim>\<open>errorToResponse\<close> (\<^verbatim>\<open>BusinessRuleError\<close> 422, \<^verbatim>\<open>ConcurrencyError\<close> 409,
  \<^verbatim>\<open>TimeoutError\<close> 408, \<^verbatim>\<open>ResourceExhaustedError\<close> 429, \<^verbatim>\<open>InvariantViolationError\<close> 422, each
  with a code of its own) and every context that \<^verbatim>\<open>JSON.stringify\<close> can serialise,
  \<^verbatim>\<open>handleError\<close> exposes the error's message verbatim, as the \<^verbatim>\<open>error\<close> and the \<^verbatim>\<open>message\<close>
  of the response. The response is the one \<^verbatim>\<open>createErrorResponse\<close> makes of a descriptor
  whose code is \<^verbatim>\<open>INTERNAL_SERVER_ERROR\<close>, not the error's own; the envelope itself has no
  code. For a context that does not serialise, \<^verbatim>\<open>handleError\<close> rejects with the
  \<^verbatim>\<open>TypeError\<close> of \<^verbatim>\<open>JSON.stringify\<close> and returns no response.
\<close>

theorem undedicated_4xx_exposes_message:
  "(\<not> has_dedicated_branch (be_class e) \<and> 400 \<le> be_statusCode e \<and> be_statusCode e < 500
      \<and> context_failure ctx = None \<longrightarrow>
      response_of (handleError (ThrownBaseError e) ctx env)
        = Some \<lparr> ar_success = False, ar_data = None, ar_error = Some (be_message e),
                 ar_message = Some (be_message e), ar_timestamp = time_of_response env,
                 ar_traceId = str_or (Some (be_traceId e)) (id_for_response env) \<rparr>
    \<and> response_of (handleError (ThrownBaseError e) ctx env)
        = Some (createErrorResponse
                  (Inr (serverErrorDescriptor (be_message e) (Some (be_traceId e)) (id_for_response env)))
                  (Some (be_message e)) (Some (be_traceId e)) (id_for_response env) (time_of_response env))
    \<and> ae_code (serverErrorDescriptor (be_message e) (Some (be_traceId e)) (id_for_response env))
        = ''INTERNAL_SERVER_ERROR'')
 \<and> (context_failure ctx = Some t \<longrightarrow>
      handleError (ThrownBaseError e) ctx env = Inl t
    \<and> response_of (handleError (ThrownBaseError e) ctx env) = None)
 \<and> \<not> has_dedicated_branch (be_class (new_BusinessRuleError message rule ruleParams c nanoid now))
 \<and> be_statusCode (new_BusinessRuleError message rule ruleParams c nanoid now) = 422
 \<and> be_code (new_BusinessRuleError message rule ruleParams c nanoid now) = ''BUSINESS_RULE_ERROR''
 \<and> be_message (new_BusinessRuleError message rule ruleParams c nanoid now) = message
 \<and> \<not> has_dedicated_branch (be_class (new_ConcurrencyError message expectedVersion actualVersion c nanoid now))
 \<and> be_statusCode (new_ConcurrencyError message expectedVersion actualVersion c nanoid now) = 409
 \<and> be_code (new_ConcurrencyError message expectedVersion actualVersion c nanoid now) = ''CONCURRENCY_ERROR''
 \<and> be_message (new_ConcurrencyError message expectedVersion actualVersion c nanoid now) = message
 \<and> \<not> has_dedicated_branch (be_class (new_TimeoutError message operation timeoutMs c nanoid now))
 \<and> be_statusCode (new_TimeoutError message operation timeoutMs c nanoid now) = 408
 \<and> be_code (new_TimeoutError message operation timeoutMs c nanoid now) = ''TIMEOUT_ERROR''
 \<and> be_message (new_TimeoutError message operation timeoutMs c nanoid now) = message
 \<and> \<not> has_dedicated_branch (be_class (new_ResourceExhaustedError message resource limit current c nanoid now))
 \<and> be_statusCode (new_ResourceExhaustedError message resource limit current c nanoid now) = 429
 \<and> be_code (new_ResourceExhaustedError message resource limit current c nanoid now) = ''RESOURCE_EXHAUSTED''
 \<and> be_message (new_ResourceExhaustedError message resource limit current c nanoid now) = message
 \<and> \<not> has_dedicated_branch (be_class (new_InvariantViolationError message invariant aggregateId aggregateType c nanoid now))
 \<and> be_statusCode (new_InvariantViolationError message invariant aggregateId aggregateType c nanoid now) = 422
 \<and> be_code (new_InvariantViolationError message invariant aggregateId aggregateType c nanoid now) = ''INVARIANT_VIOLATION''
 \<and> be_message (new_InvariantViolationError message invariant aggregateId aggregateType c nanoid now) = message"
proof -
  have general: "response_of (handleError (ThrownBaseError e) ctx env)
        = Some \<lparr> ar_success = False, ar_data = None, ar_error = Some (be_message e),
                 ar_message = Some (be_message e), ar_timestamp = time_of_response env,
                 ar_traceId = str_or (Some (be_traceId e)) (id_for_response env) \<rparr>
    \<and> response_of (handleError (ThrownBaseError e) ctx env)
        = Some (createErrorResponse
                  (Inr (serverErrorDescriptor (be_message e) (Some (be_traceId e)) (id_for_response env)))
                  (Some (be_message e)) (Some (be_traceId e)) (id_for_response env) (time_of_response env))
    \<and> ae_code (serverErrorDescriptor (be_message e) (Some (be_traceId e)) (id_for_response env))
        = ''INTERNAL_SERVER_ERROR''"
    if h: "\<not> has_dedicated_branch (be_class e) \<and> 400 \<le> be_statusCode e \<and> be_statusCode e < 500
      \<and> context_failure ctx = None"
  proof -
    from h have r: "response_of (handleError (ThrownBaseError e) ctx env)
           = Some (createServerErrorResponse (Some (be_message e)) (Some (be_traceId e))
                     (id_for_response env) (time_of_response env))"
      by (simp add: undedicated_4xx_response)
    have code: "ae_code (serverErrorDescriptor (be_message e) (Some (be_traceId e)) (id_for_response env))
        = ''INTERNAL_SERVER_ERROR''"
      by (simp add: serverErrorDescriptor_def)
    have f: "response_of (handleError (ThrownBaseError e) ctx env)
        = Some \<lparr> ar_success = False, ar_data = None, ar_error = Some (be_message e),
                 ar_message = Some (be_message e), ar_timestamp = time_of_response env,
                 ar_traceId = str_or (Some (be_traceId e)) (id_for_response env) \<rparr>"
      by (simp only: r createServerErrorResponse_fields)
    have d: "response_of (handleError (ThrownBaseError e) ctx env)
        = Some (createErrorResponse
                  (Inr (serverErrorDescriptor (be_message e) (Some (be_traceId e)) (id_for_response env)))
                  (Some (be_message e)) (Some (be_traceId e)) (id_for_response env) (time_of_response env))"
      by (simp only: r createServerErrorResponse_descriptor)
    from f d code show ?thesis by (intro conjI)
  qed
  then have general': "\<not> has_dedicated_branch (be_class e) \<and> 400 \<le> be_statusCode e \<and> be_statusCode e < 500
      \<and> context_failure ctx = None \<longrightarrow>
      response_of (handleError (ThrownBaseError e) ctx env)
        = Some \<lparr> ar_success = False, ar_data = None, ar_error = Some (be_message e),
                 ar_message = Some (be_message e), ar_timestamp = time_of_response env,
                 ar_traceId = str_or (Some (be_traceId e)) (id_for_response env) \<rparr>
    \<and> response_of (handleError (ThrownBaseError e) ctx env)
        = Some (createErrorResponse
                  (Inr (serverErrorDescriptor (be_message e) (Some (be_traceId e)) (id_for_response env)))
                  (Some (be_message e)) (Some (be_traceId e)) (id_for_response env) (time_of_response env))
    \<and> ae_code (serverErrorDescriptor (be_message e) (Some (be_traceId e)) (id_for_response env))
        = ''INTERNAL_SERVER_ERROR''"
    by (rule impI)
  have rejected: "context_failure ctx = Some t \<longrightarrow>
      handleError (ThrownBaseError e) ctx env = Inl t
    \<and> response_of (handleError (ThrownBaseError e) ctx env) = None"
    using handleError_rejected [of ctx t "ThrownBaseError e" env] by simp
  show ?thesis
    by (intro conjI general' rejected domain_errors_undedicated domain_errors_status domain_errors_code
        domain_errors_message)
qed

theorem undedicated_4xx_exposes_message_witness:
  "\<not> has_dedicated_branch (be_class version_conflict)
 \<and> 400 \<le> be_statusCode version_conflict \<and> be_statusCode version_conflict < 500
 \<and> context_failure (Some plain_context) = None
 \<and> response_of (handleError (ThrownBaseError version_conflict) (Some plain_context) example_env)
     = Some \<lparr> ar_success = False, ar_data = None, ar_error = Some ''stale version'',
              ar_message = Some ''stale version'', ar_timestamp = 12, ar_traceId = ''trace-0'' \<rparr>
 \<and> context_failure (Some bigint_context) = Some BigIntNotSerializable
 \<and> handleError (ThrownBaseError version_conflict) (Some bigint_context) example_env
     = Inl BigIntNotSerializable"
proof -
  note ok = example_contexts(2) and bad = example_contexts(3)
  have h0: "\<not> has_dedicated_branch (be_class version_conflict)
         \<and> 400 \<le> be_statusCode version_conflict \<and> be_statusCode version_conflict < 500"
    by (simp add: version_conflict_def domain_errors_undedicated domain_errors_status)
  with ok have h: "\<not> has_dedicated_branch (be_class version_conflict)
         \<and> 400 \<le> be_statusCode version_conflict \<and> be_statusCode version_conflict < 500
         \<and> context_failure (Some plain_context) = None"
    by simp
  note w = undedicated_4xx_exposes_message [where e = version_conflict and ctx = "Some plain_context"
      and env = example_env, THEN conjunct1, rule_format, OF h, THEN conjunct1]
  note v = undedicated_4xx_exposes_message [where e = version_conflict and ctx = "Some bigint_context"
      and env = example_env and t = BigIntNotSerializable, THEN conjunct2, THEN conjunct1, rule_format,
      OF bad, THEN conjunct1]
  have m: "be_message version_conflict = ''stale version''"
    and tr: "be_traceId version_conflict = ''trace-0''"
    by (simp_all add: version_conflict_def new_ConcurrencyError_def BaseError_new_def str_or_def
        truthy_str_def)
  have r: "response_of (handleError (ThrownBaseError version_conflict) (Some plain_context) example_env)
     = Some \<lparr> ar_success = False, ar_data = None, ar_error = Some ''stale version'',
              ar_message = Some ''stale version'', ar_timestamp = 12, ar_traceId = ''trace-0'' \<rparr>"
    unfolding w by (simp add: m tr example_env_def str_or_def truthy_str_def)
  from h0 ok r bad v show ?thesis by (intro conjI) simp_all
qed

end
